theory Spec2Isabelle
  imports Main "HOL-Library.AList"
begin

section \<open>Python values\<close>

text \<open>
  A Python \<open>str\<close> is modelled by its UTF-8 byte sequence (\<open>string\<close>), a value that may be
  \<open>None\<close> by \<open>string option\<close>. The platform names and the user-visible messages of the
  service are Chinese text; they are written out below byte by byte.
\<close>

definition xiaohongshu :: string where
  "xiaohongshu = [CHR 0xE5, CHR 0xB0, CHR 0x8F, CHR 0xE7, CHR 0xBA, CHR 0xA2, CHR 0xE4, CHR 0xB9, CHR 0xA6]"

definition bilibili :: string where
  "bilibili = [CHR 0xE5, CHR 0x93, CHR 0x94, CHR 0xE5, CHR 0x93, CHR 0xA9, CHR 0xE5, CHR 0x93, CHR 0x94, CHR 0xE5, CHR 0x93, CHR 0xA9]"

definition msg_success :: string where
  "msg_success = [CHR 0xE6, CHR 0x88, CHR 0x90, CHR 0xE5, CHR 0x8A, CHR 0x9F]"

definition msg_download_fallback :: string where
  "msg_download_fallback = [CHR 0xE6, CHR 0x9C, CHR 0x8D, CHR 0xE5, CHR 0x8A, CHR 0xA1, CHR 0xE5, CHR 0x99, CHR 0xA8, CHR 0xE4, CHR 0xB8, CHR 0x8B, CHR 0xE8, CHR 0xBD, CHR 0xBD, CHR 0xE5, CHR 0xA4, CHR 0xB1, CHR 0xE8, CHR 0xB4, CHR 0xA5, CHR 0xEF, CHR 0xBC, CHR 0x8C, CHR 0xE8, CHR 0xBF, CHR 0x94, CHR 0xE5, CHR 0x9B, CHR 0x9E, CHR 0xE5, CHR 0x8E, CHR 0x9F, CHR 0xE5, CHR 0xA7, CHR 0x8B, CHR 0xE9, CHR 0x93, CHR 0xBE, CHR 0xE6, CHR 0x8E, CHR 0xA5]"

definition msg_busy :: string where
  "msg_busy = [CHR 0xE5, CHR 0x8A, CHR 0x9F, CHR 0xE8, CHR 0x83, CHR 0xBD, CHR 0xE5, CHR 0xA4, CHR 0xAA, CHR 0xE7, CHR 0x81, CHR 0xAB, CHR 0xE7, CHR 0x88, CHR 0x86, CHR 0xE5, CHR 0x95, CHR 0xA6, CHR 0xEF, CHR 0xBC, CHR 0x8C, CHR 0xE8, CHR 0xAF, CHR 0xB7, CHR 0xE7, CHR 0xA8, CHR 0x8D, CHR 0xE5, CHR 0x90, CHR 0x8E, CHR 0xE5, CHR 0x86, CHR 0x8D, CHR 0xE8, CHR 0xAF, CHR 0x95]"

definition msg_unsupported :: string where
  "msg_unsupported = [CHR 0xE8, CHR 0xAF, CHR 0xA5, CHR 0xE9, CHR 0x93, CHR 0xBE, CHR 0xE6, CHR 0x8E, CHR 0xA5, CHR 0xE5, CHR 0xB0, CHR 0x9A, CHR 0xE6, CHR 0x9C, CHR 0xAA, CHR 0xE6, CHR 0x94, CHR 0xAF, CHR 0xE6, CHR 0x8C, CHR 0x81, CHR 0xE6, CHR 0x8F, CHR 0x90, CHR 0xE5, CHR 0x8F, CHR 0x96]"

definition msg_no_url :: string where
  "msg_no_url = [CHR 0xE6, CHR 0x9C, CHR 0xAA, CHR 0xE6, CHR 0x89, CHR 0xBE, CHR 0xE5, CHR 0x88, CHR 0xB0, CHR 0xE6, CHR 0x9C, CHR 0x89, CHR 0xE6, CHR 0x95, CHR 0x88, CHR 0xE7, CHR 0x9A, CHR 0x84, CHR 0xE8, CHR 0xA7, CHR 0x86, CHR 0xE9, CHR 0xA2, CHR 0x91, CHR 0xE9, CHR 0x93, CHR 0xBE, CHR 0xE6, CHR 0x8E, CHR 0xA5]"

text \<open>
  Truthiness of a value that is \<open>None\<close> or a \<open>str\<close>: the tests \<open>if x:\<close> and \<open>if not x:\<close>
  of the source treat \<open>None\<close> and the empty string alike.
\<close>

fun truthy :: "string option \<Rightarrow> bool" where
  "truthy None = False"
| "truthy (Some s) = (s \<noteq> [])"

text \<open>
  Exceptions are identified by their class. The classes are those the handlers of the
  source name, with Python's subclass relation between them:
  \<open>requests.exceptions.RequestException\<close> derives from \<open>IOError\<close>, and
  \<open>ConnectionError\<close>, \<open>ChunkedEncodingError\<close> and \<open>HTTPError\<close> (all imported from
  \<open>requests.exceptions\<close>) derive from \<open>RequestException\<close>; \<open>FileNotFoundError\<close> derives
  from \<open>IOError\<close>. \<open>OtherException\<close> stands for any other subclass of \<open>Exception\<close>.
\<close>

datatype py_exception =
    OtherException | ValueError | IOError | FileNotFoundError
  | RequestException | ConnectionError | ChunkedEncodingError | HTTPError

datatype py_class =
    C_Exception | C_ValueError | C_IOError | C_FileNotFoundError
  | C_RequestException | C_ConnectionError | C_ChunkedEncodingError | C_HTTPError

fun isinstance :: "py_exception \<Rightarrow> py_class \<Rightarrow> bool" where
  "isinstance e C_Exception = True"
| "isinstance e C_ValueError = (e = ValueError)"
| "isinstance e C_IOError =
     (e = IOError \<or> e = FileNotFoundError \<or> e = RequestException \<or> e = ConnectionError
      \<or> e = ChunkedEncodingError \<or> e = HTTPError)"
| "isinstance e C_FileNotFoundError = (e = FileNotFoundError)"
| "isinstance e C_RequestException =
     (e = RequestException \<or> e = ConnectionError \<or> e = ChunkedEncodingError \<or> e = HTTPError)"
| "isinstance e C_ConnectionError = (e = ConnectionError)"
| "isinstance e C_ChunkedEncodingError = (e = ChunkedEncodingError)"
| "isinstance e C_HTTPError = (e = HTTPError)"

section \<open>Responses (api.py)\<close>

datatype jval = JNull | JStr string

fun jstr :: "string option \<Rightarrow> jval" where
  "jstr None = JNull"
| "jstr (Some s) = JStr s"

type_synonym dict = "(string \<times> jval) list"

record api_response =
  retcode :: int
  retdesc :: string
  data :: "dict option"
  ranking :: "dict option"
  succ :: bool

definition make_response :: "int \<Rightarrow> string \<Rightarrow> dict option \<Rightarrow> dict option \<Rightarrow> bool \<Rightarrow> api_response" where
  "make_response rc rd d rk s = \<lparr>retcode = rc, retdesc = rd, data = d, ranking = rk, succ = s\<rparr>"

record json_response =
  status_code :: nat
  content :: api_response

definition JSONResponse :: "nat \<Rightarrow> api_response \<Rightarrow> json_response" where
  "JSONResponse sc c = \<lparr>status_code = sc, content = c\<rparr>"

text \<open>
  The handler \<open>except Exception\<close> that closes each of the four request handlers: an
  exception that escapes the \<open>try\<close> block (\<open>Inl\<close>) becomes the HTTP 500 response. The second
  component is whatever state the block left behind.
\<close>

definition catch_all :: "(py_exception + json_response) \<times> 's \<Rightarrow> json_response \<times> 's" where
  "catch_all out =
     (case out of
        (Inr resp, s) \<Rightarrow> (resp, s)
      | (Inl e, s) \<Rightarrow> (JSONResponse 500 (make_response 500 msg_busy None None False), s))"

section \<open>What lies outside the source files\<close>

text \<open>
  The accessors of one extractor instance. Each accessor is called at most once per
  instance, so it is modelled by its outcome: an exception or a value. \<open>get_audio_url\<close>
  is \<open>None\<close> for an instance without that attribute (\<open>hasattr\<close> is false).
\<close>

record downloader =
  get_title_content :: "py_exception + string option"
  get_real_video_url :: "py_exception + string option"
  get_cover_photo_url :: "py_exception + string option"
  get_audio_url :: "(py_exception + string option) option"

text \<open>The result of \<open>session.get\<close>: the status line and what \<open>iter_content\<close> will yield,
  a sequence of chunks followed by the end of the stream or by an exception.\<close>

record response =
  resp_status :: nat
  body_chunks :: "string list"
  body_error :: "py_exception option"

text \<open>What \<open>subprocess.run\<close> returns when the program has run.\<close>

record completed_process =
  returncode :: int
  stderr :: string

text \<open>
  The modules \<open>configs.general_constants\<close>, \<open>utils.web_fetcher\<close>, \<open>utils.vigenere_cipher\<close>
  and \<open>src.downloader_factory\<close> are imported by the service but are not among the source
  files, and the clock, the network and the disk are outside any source file. They are
  parameters of the model, collected in one record:
  \<^item> \<open>now_ms\<close> is \<open>int(time.time() * 1000)\<close>; \<open>py_int\<close> is \<open>int()\<close> on a string, \<open>None\<close>
    where it raises \<open>ValueError\<close>; \<open>verify_decryption ts e g\<close> is
    \<open>VigenereCipher(ts).verify_decryption(e, g)\<close>;
  \<^item> \<open>get_url\<close>, \<open>get_domain\<close>, \<open>get_video_id\<close>, \<open>extract_video_address\<close> are the static methods
    of \<open>UrlParser\<close>, \<open>fetch_redirect_url\<close> that of \<open>WebFetcher\<close>;
  \<^item> \<open>DOMAIN_TO_NAME\<close>, \<open>MINI_PROGRAM_LEGAL_DOMAIN\<close>, \<open>SAVE_VIDEO_PATH\<close>, \<open>DOMAIN\<close> are the
    configuration constants;
  \<^item> \<open>create_downloader n platform url\<close> is the outcome of
    \<open>DownloaderFactory.create_downloader(platform, url)\<close> when \<open>n\<close> instances have been
    constructed before in the same request (the remote page may answer differently each time);
  \<^item> \<open>session_get url headers\<close> is the outcome of \<open>session.get\<close> (after the retries of the
    mounted adapter); \<open>open_error path\<close> is the exception \<open>open(path, 'wb')\<close> raises, if any;
    \<open>write_error path n\<close> is the exception the \<open>n\<close>-th \<open>f.write\<close> of the request raises, if any;
  \<^item> \<open>validate_request\<close> is \<open>utils.common_utils.validate_request\<close>, used by the Flask
    blueprints under \<open>src/api\<close>: \<open>None\<close> when the request passes, the error response
    otherwise;
  \<^item> \<open>subprocess_run cmd fs\<close> is the outcome of \<open>subprocess.run(cmd, ...)\<close> on the disk \<open>fs\<close>:
    an exception, or the completed process and the disk as the program left it.
\<close>

record env =
  now_ms :: int
  py_int :: "string \<Rightarrow> int option"
  verify_decryption :: "string \<Rightarrow> string \<Rightarrow> string \<Rightarrow> bool"
  get_url :: "string \<Rightarrow> string option"
  fetch_redirect_url :: "string option \<Rightarrow> string option"
  get_domain :: "string option \<Rightarrow> string option"
  get_video_id :: "string option \<Rightarrow> string option"
  extract_video_address :: "string option \<Rightarrow> string option"
  DOMAIN_TO_NAME :: "string \<rightharpoonup> string"
  create_downloader :: "nat \<Rightarrow> string \<Rightarrow> string option \<Rightarrow> py_exception + downloader"
  MINI_PROGRAM_LEGAL_DOMAIN :: "string list"
  SAVE_VIDEO_PATH :: string
  DOMAIN :: "string option"
  session_get :: "string \<Rightarrow> (string \<times> string) list \<Rightarrow> py_exception + response"
  open_error :: "string \<Rightarrow> py_exception option"
  write_error :: "string \<Rightarrow> nat \<Rightarrow> py_exception option"
  validate_request :: "string \<Rightarrow> json_response option"
  subprocess_run :: "string list \<Rightarrow> (string \<rightharpoonup> string)
     \<Rightarrow> py_exception + completed_process \<times> (string \<rightharpoonup> string)"

text \<open>
  Modelled from the spec: \<open>UrlParser.convert_to_https\<close> (\<open>utils/web_fetcher.py\<close> is not
  among the source files). The spec's \<open>to_https\<close> rewrites an \<open>http://\<close> scheme to
  \<open>https://\<close> and passes already-secure or malformed input through unchanged; \<open>None\<close> is
  passed through as it is.
\<close>

definition convert_to_https :: "string option \<Rightarrow> string option" where
  "convert_to_https url =
     (case url of
        None \<Rightarrow> None
      | Some u \<Rightarrow> if take 7 u = ''http://'' then Some (''https://'' @ drop 7 u) else Some u)"

section \<open>Request validation (api.py, validate\_request\_headers)\<close>

definition validate_timestamp :: "int \<Rightarrow> int \<Rightarrow> bool" where
  "validate_timestamp current_timestamp request_timestamp =
     (let time_window = 5 * 60 * 1000
      in \<bar>current_timestamp - request_timestamp\<bar> \<le> time_window)"

definition validate_request_headers ::
  "env \<Rightarrow> string \<Rightarrow> string \<Rightarrow> string \<Rightarrow> string list \<Rightarrow> api_response option" where
  "validate_request_headers env x_timestamp x_gclt_text x_egct_text args =
     (let missing_params = filter (\<lambda>param. param = []) args in
      if missing_params \<noteq> [] then
        Some (make_response 400 ''Missing parameters in request'' None None False)
      else if x_timestamp = [] then
        Some (make_response 400 ''Missing timestamp in request'' None None False)
      else
        (case py_int env x_timestamp of
           None \<Rightarrow> Some (make_response 400 ''Invalid timestamp format'' None None False)
         | Some ts \<Rightarrow>
             if \<not> validate_timestamp (now_ms env) ts then
               Some (make_response 400 ''Invalid timestamp'' None None False)
             else if \<not> verify_decryption env x_timestamp x_egct_text x_gclt_text then
               Some (make_response 400 ''Decryption verification failed'' None None False)
             else None))"

section \<open>The resolve operation (api.py, parse\_video)\<close>

text \<open>The local variables \<open>title\<close>, \<open>video_url\<close>, \<open>cover_url\<close> and \<open>downloader\<close>.\<close>

record extraction =
  title :: "string option"
  video_url :: "string option"
  cover_url :: "string option"
  the_downloader :: "downloader option"

definition no_extraction :: extraction where
  "no_extraction = \<lparr>title = None, video_url = None, cover_url = None, the_downloader = None\<rparr>"

text \<open>
  The four lines that construct an extractor and read it. The second component of the
  result counts the instances constructed so far in the request: a constructor that
  raises constructs nothing.
\<close>

definition read_downloader :: "downloader \<Rightarrow> py_exception + extraction" where
  "read_downloader d =
     (case get_title_content d of
        Inl e \<Rightarrow> Inl e
      | Inr t \<Rightarrow>
          (case get_real_video_url d of
             Inl e \<Rightarrow> Inl e
           | Inr v \<Rightarrow>
               (case get_cover_photo_url d of
                  Inl e \<Rightarrow> Inl e
                | Inr c \<Rightarrow>
                    Inr \<lparr>title = t, video_url = v, cover_url = c, the_downloader = Some d\<rparr>)))"

definition extract_once ::
  "env \<Rightarrow> string \<Rightarrow> string option \<Rightarrow> nat \<Rightarrow> (py_exception + extraction) \<times> nat" where
  "extract_once env platform real_url n =
     (case create_downloader env n platform real_url of
        Inl e \<Rightarrow> (Inl e, n)
      | Inr d \<Rightarrow> (read_downloader d, Suc n))"

text \<open>
  The \<open>while attempts < max_attempts\<close> loop of the Xiaohongshu branch. \<open>cur\<close> holds the
  variables as the last iteration left them; \<open>n\<close> counts the instances constructed.
\<close>

function retry_loop ::
  "env \<Rightarrow> string \<Rightarrow> string option \<Rightarrow> nat \<Rightarrow> nat \<Rightarrow> extraction \<Rightarrow> nat
     \<Rightarrow> (py_exception + extraction) \<times> nat" where
  "retry_loop env platform real_url max_attempts attempts cur n =
     (if attempts < max_attempts then
        (case extract_once env platform real_url n of
           (Inl e, n') \<Rightarrow> (Inl e, n')
         | (Inr r, n') \<Rightarrow>
             if truthy (video_url r) then (Inr r, n')
             else retry_loop env platform real_url max_attempts (Suc attempts) r n')
      else (Inr cur, n))"
  by pat_completeness auto
termination
  by (relation "measure (\<lambda>(env, platform, real_url, max_attempts, attempts, cur, n).
        max_attempts - attempts)") auto

definition extract_media ::
  "env \<Rightarrow> string \<Rightarrow> string option \<Rightarrow> (py_exception + extraction) \<times> nat" where
  "extract_media env platform real_url =
     (if platform = xiaohongshu then
        (let max_attempts = 5; attempts = 0
         in retry_loop env platform real_url max_attempts attempts no_extraction 0)
      else extract_once env platform real_url 0)"

text \<open>From \<open>updated_video_url = ...\<close> to the final \<open>return\<close> of the \<open>try\<close> block.\<close>

definition build_data_dict :: "string option \<Rightarrow> string \<Rightarrow> extraction \<Rightarrow> dict" where
  "build_data_dict video_id platform r =
     (let updated_video_url = convert_to_https (video_url r);
          updated_cover_url = convert_to_https (cover_url r)
      in [(''video_id'', jstr video_id), (''platform'', JStr platform), (''title'', jstr (title r)),
          (''video_url'', jstr updated_video_url), (''cover_url'', jstr updated_cover_url)])"

definition add_audio_url :: "string \<Rightarrow> extraction \<Rightarrow> dict \<Rightarrow> py_exception + dict" where
  "add_audio_url platform r data_dict =
     (if platform = bilibili then
        (case the_downloader r of
           None \<Rightarrow> Inr data_dict
         | Some d \<Rightarrow>
             (case get_audio_url d of
                None \<Rightarrow> Inr data_dict
              | Some (Inl e) \<Rightarrow> Inl e
              | Some (Inr audio_url) \<Rightarrow>
                  if truthy audio_url
                  then Inr (AList.update ''audio_url'' (jstr (convert_to_https audio_url)) data_dict)
                  else Inr data_dict))
      else Inr data_dict)"

definition parse_success :: "string option \<Rightarrow> string \<Rightarrow> extraction \<Rightarrow> py_exception + json_response" where
  "parse_success video_id platform r =
     (case add_audio_url platform r (build_data_dict video_id platform r) of
        Inl e \<Rightarrow> Inl e
      | Inr data_dict \<Rightarrow>
          Inr (JSONResponse 200 (make_response 200 msg_success (Some data_dict) None True)))"

text \<open>
  From \<open>redirect_url = ...\<close> to \<open>real_url = ...\<close>: the redirect is followed, with the
  extracted link as fallback, and the landing URL gives the platform
  (\<open>DOMAIN_TO_NAME.get\<close>: \<open>None\<close> for a domain that is not a key), the video identifier
  and the address handed to the extractor.
\<close>

definition locate :: "env \<Rightarrow> string option \<Rightarrow> string option \<times> string option \<times> string option" where
  "locate env extracted_url =
     (let redirect_url0 = fetch_redirect_url env extracted_url;
          redirect_url = (if \<not> truthy redirect_url0 then extracted_url else redirect_url0);
          platform = (case get_domain env redirect_url of
                        None \<Rightarrow> None | Some d \<Rightarrow> DOMAIN_TO_NAME env d);
          video_id = get_video_id env redirect_url;
          real_url = extract_video_address env redirect_url
      in (platform, video_id, real_url))"

text \<open>
  The body of the \<open>try\<close> block of \<open>parse_video\<close>: \<open>Inl\<close> is an exception that reaches the
  \<open>except Exception\<close> handler, \<open>Inr\<close> a response returned from inside the block. The
  header \<open>WX-OPEN-ID\<close> is only logged and is left out.
\<close>

definition parse_video_body ::
  "env \<Rightarrow> string \<Rightarrow> string \<Rightarrow> string \<Rightarrow> string \<Rightarrow> (py_exception + json_response) \<times> nat" where
  "parse_video_body env text x_timestamp x_gclt_text x_egct_text =
     (case validate_request_headers env x_timestamp x_gclt_text x_egct_text [text] of
        Some validation_error \<Rightarrow> (Inr (JSONResponse 400 validation_error), 0)
      | None \<Rightarrow>
          (let extracted_url = get_url env text in
           if \<not> truthy extracted_url then
             (Inr (JSONResponse 400 (make_response 400 msg_no_url None None False)), 0)
           else
             (case locate env extracted_url of
                (platform, video_id, real_url) \<Rightarrow>
                  (case platform of
                     None \<Rightarrow>
                       (Inr (JSONResponse 400 (make_response 400 msg_unsupported None None False)), 0)
                   | Some p \<Rightarrow>
                       if p = [] then
                         (Inr (JSONResponse 400 (make_response 400 msg_unsupported None None False)), 0)
                       else
                         (case extract_media env p real_url of
                            (Inl e, n) \<Rightarrow> (Inl e, n)
                          | (Inr r, n) \<Rightarrow> (parse_success video_id p r, n))))))"

definition parse_video :: "env \<Rightarrow> string \<Rightarrow> string \<Rightarrow> string \<Rightarrow> string \<Rightarrow> json_response \<times> nat" where
  "parse_video env text x_timestamp x_gclt_text x_egct_text =
     catch_all (parse_video_body env text x_timestamp x_gclt_text x_egct_text)"

section \<open>The resolve operation, Flask blueprint (src/api/parse.py, parse)\<close>

text \<open>
  The blueprint differs from \<open>parse_video\<close> in its validation (\<open>validate_request\<close>) and in
  having no test of \<open>extracted_url\<close>: a text without a link flows on as \<open>None\<close>.
\<close>

definition parse_body :: "env \<Rightarrow> string \<Rightarrow> (py_exception + json_response) \<times> nat" where
  "parse_body env text =
     (case validate_request env text of
        Some validation_result \<Rightarrow> (Inr validation_result, 0)
      | None \<Rightarrow>
          (let extracted_url = get_url env text
           in (case locate env extracted_url of
                 (platform, video_id, real_url) \<Rightarrow>
                   (case platform of
                      None \<Rightarrow>
                        (Inr (JSONResponse 400 (make_response 400 msg_unsupported None None False)), 0)
                    | Some p \<Rightarrow>
                        if p = [] then
                          (Inr (JSONResponse 400 (make_response 400 msg_unsupported None None False)), 0)
                        else
                          (case extract_media env p real_url of
                             (Inl e, n) \<Rightarrow> (Inl e, n)
                           | (Inr r, n) \<Rightarrow> (parse_success video_id p r, n))))))"

definition parse :: "env \<Rightarrow> string \<Rightarrow> json_response \<times> nat" where
  "parse env text = catch_all (parse_body env text)"

section \<open>The disk and the network\<close>

text \<open>
  The part of the world the download handler acts on: the files on disk, by path, and the
  sequence of effects performed so far. A handler takes the world and returns it changed.
\<close>

datatype effect =
    HttpGet string "(string \<times> string) list"
  | FileOpen string
  | FileWrite string string
  | FileRemove string
  | Subprocess "string list"
  | Print string

record world =
  files :: "string \<rightharpoonup> string"
  trace :: "effect list"

definition os_path_exists :: "world \<Rightarrow> string \<Rightarrow> bool" where
  "os_path_exists w path = (files w path \<noteq> None)"

text \<open>\<open>os.path.join\<close> (POSIX) of two components.\<close>

definition os_path_join :: "string \<Rightarrow> string \<Rightarrow> string" where
  "os_path_join a b =
     (if take 1 b = ''/'' then b
      else if a = [] \<or> last a = CHR ''/'' then a @ b
      else a @ ''/'' @ b)"

text \<open>\<open>os.remove\<close> raises \<open>FileNotFoundError\<close> for a path that does not exist.\<close>

definition os_remove :: "string \<Rightarrow> world \<Rightarrow> py_exception + world" where
  "os_remove path w =
     (if os_path_exists w path
      then Inr (w\<lparr>files := (files w)(path := None), trace := trace w @ [FileRemove path]\<rparr>)
      else Inl FileNotFoundError)"

text \<open>\<open>open(path, 'wb')\<close> creates the file, or empties it; \<open>f.write(chunk)\<close> appends.\<close>

definition file_open :: "string \<Rightarrow> world \<Rightarrow> world" where
  "file_open path w = w\<lparr>files := (files w)(path \<mapsto> []), trace := trace w @ [FileOpen path]\<rparr>"

definition file_write :: "string \<Rightarrow> string \<Rightarrow> world \<Rightarrow> world" where
  "file_write path chunk w =
     w\<lparr>files := (files w)(path \<mapsto> (case files w path of None \<Rightarrow> chunk | Some old \<Rightarrow> old @ chunk)),
       trace := trace w @ [FileWrite path chunk]\<rparr>"

text \<open>The substring test \<open>s in t\<close> on strings.\<close>

fun contains :: "string \<Rightarrow> string \<Rightarrow> bool" where
  "contains s [] = (s = [])"
| "contains s (c # cs) = (take (length s) (c # cs) = s \<or> contains s cs)"

text \<open>\<open>response.raise_for_status()\<close>: an \<open>HTTPError\<close> for a 4xx or 5xx status.\<close>

definition raise_for_status :: "response \<Rightarrow> py_exception option" where
  "raise_for_status r = (if 400 \<le> resp_status r \<and> resp_status r < 600 then Some HTTPError else None)"

section \<open>The materialize operation (api.py, download\_video)\<close>

text \<open>The first \<open>try\<close> block: \<open>session.get\<close> followed by \<open>raise_for_status\<close>.\<close>

definition fetch ::
  "env \<Rightarrow> string \<Rightarrow> (string \<times> string) list \<Rightarrow> world \<Rightarrow> (py_exception + response) \<times> world" where
  "fetch env url headers w =
     (let w1 = w\<lparr>trace := trace w @ [HttpGet url headers]\<rparr> in
      case session_get env url headers of
        Inl e \<Rightarrow> (Inl e, w1)
      | Inr r \<Rightarrow> (case raise_for_status r of Some e \<Rightarrow> (Inl e, w1) | None \<Rightarrow> (Inr r, w1)))"

text \<open>
  The loop \<open>for chunk in response.iter_content(...)\<close> over the chunks that arrive; \<open>n\<close>
  counts the writes done. The result is the exception that ended the loop, if any, and the
  world as it is then.
\<close>

fun save_chunks :: "env \<Rightarrow> string \<Rightarrow> nat \<Rightarrow> string list \<Rightarrow> world \<Rightarrow> py_exception option \<times> world" where
  "save_chunks env path n [] w = (None, w)"
| "save_chunks env path n (chunk # rest) w =
     (if chunk \<noteq> [] then
        (case write_error env path n of
           Some e \<Rightarrow> (Some e, w)
         | None \<Rightarrow> save_chunks env path (Suc n) rest (file_write path chunk w))
      else save_chunks env path n rest w)"

text \<open>The \<open>with open(video_path, 'wb') as f:\<close> block. After the last chunk the stream
  ends, or raises the error the response carries.\<close>

definition save_video :: "env \<Rightarrow> string \<Rightarrow> response \<Rightarrow> world \<Rightarrow> py_exception option \<times> world" where
  "save_video env path r w =
     (case open_error env path of
        Some e \<Rightarrow> (Some e, w)
      | None \<Rightarrow>
          (case save_chunks env path 0 (body_chunks r) (file_open path w) of
             (Some e, w') \<Rightarrow> (Some e, w')
           | (None, w') \<Rightarrow> (body_error r, w')))"

definition request_headers :: "string \<Rightarrow> (string \<times> string) list" where
  "request_headers request_video_url =
     (let headers =
        [(''User-Agent'', ''Mozilla/5.0 (Windows NT 10.0; Win64; x64) AppleWebKit/537.36 (KHTML, like Gecko) Chrome/123.0.0.0 Safari/537.36''),
         (''Referer'', ''https://www.pearvideo.com/'')]
      in if contains ''pearvideo.com'' request_video_url
         then AList.update ''Referer'' ''https://www.pearvideo.com/'' headers
         else headers)"

text \<open>
  The body of \<open>if not os.path.exists(video_path):\<close>, up to the return of the local URL
  that follows it. \<open>Inl\<close> is an exception no handler of the block catches.
\<close>

definition download_and_save ::
  "env \<Rightarrow> string \<Rightarrow> string \<Rightarrow> string \<Rightarrow> world \<Rightarrow> (py_exception + json_response) \<times> world" where
  "download_and_save env request_video_url video_path download_url w =
     (case fetch env request_video_url (request_headers request_video_url) w of
        (Inl e, w1) \<Rightarrow>
          if isinstance e C_RequestException \<or> isinstance e C_ConnectionError then
            (Inr (JSONResponse 200 (make_response 200 msg_download_fallback
                    (Some [(''download_url'', JStr request_video_url)]) None True)), w1)
          else (Inl e, w1)
      | (Inr r, w1) \<Rightarrow>
          (case save_video env video_path r w1 of
             (Some e, w2) \<Rightarrow>
               if isinstance e C_ChunkedEncodingError \<or> isinstance e C_IOError then
                 (if os_path_exists w2 video_path then
                    (case os_remove video_path w2 of
                       Inl e' \<Rightarrow> (Inl e', w2)
                     | Inr w3 \<Rightarrow>
                         (Inr (JSONResponse 200 (make_response 200 msg_download_fallback
                                 (Some [(''download_url'', JStr request_video_url)]) None True)), w3))
                  else
                    (Inr (JSONResponse 200 (make_response 200 msg_download_fallback
                            (Some [(''download_url'', JStr request_video_url)]) None True)), w2))
               else (Inl e, w2)
           | (None, w2) \<Rightarrow>
               (Inr (JSONResponse 200 (make_response 200 msg_success
                       (Some [(''download_url'', JStr download_url)]) None True)), w2)))"

definition video_path_of :: "env \<Rightarrow> string \<Rightarrow> string" where
  "video_path_of env request_video_id =
     (let video_filename = request_video_id @ ''.mp4''
      in os_path_join (SAVE_VIDEO_PATH env) video_filename)"

definition download_url_of :: "env \<Rightarrow> string \<Rightarrow> string" where
  "download_url_of env request_video_id =
     (let video_filename = request_video_id @ ''.mp4'';
          current_domain = (case DOMAIN env of
                              None \<Rightarrow> ''http://localhost:5001''
                            | Some d \<Rightarrow> if d = [] then ''http://localhost:5001'' else d)
      in current_domain @ ''/static/videos/'' @ video_filename)"

text \<open>
  The \<open>else\<close> branch of the allow-list test: the server-side download. api.py and
  src/api/download.py have the same statements here; they differ only in where the
  return of the local URL is written (once after the \<open>if\<close>, or once in each branch).
\<close>

definition server_side_download ::
  "env \<Rightarrow> string \<Rightarrow> string \<Rightarrow> world \<Rightarrow> (py_exception + json_response) \<times> world" where
  "server_side_download env request_video_url request_video_id w =
     (let video_path = video_path_of env request_video_id;
          download_url = download_url_of env request_video_id
      in if \<not> os_path_exists w video_path then
           download_and_save env request_video_url video_path download_url w
         else
           (Inr (JSONResponse 200 (make_response 200 msg_success
                   (Some [(''download_url'', JStr download_url)]) None True)), w))"

definition legal_domain :: "env \<Rightarrow> string \<Rightarrow> bool" where
  "legal_domain env request_video_url =
     (case get_domain env (Some request_video_url) of
        None \<Rightarrow> False
      | Some domain \<Rightarrow> domain \<in> set (MINI_PROGRAM_LEGAL_DOMAIN env))"

definition download_video_body ::
  "env \<Rightarrow> string \<Rightarrow> string \<Rightarrow> string \<Rightarrow> string \<Rightarrow> string \<Rightarrow> world
     \<Rightarrow> (py_exception + json_response) \<times> world" where
  "download_video_body env request_video_url request_video_id x_timestamp x_gclt_text x_egct_text w =
     (case validate_request_headers env x_timestamp x_gclt_text x_egct_text [request_video_url] of
        Some validation_error \<Rightarrow> (Inr (JSONResponse 400 validation_error), w)
      | None \<Rightarrow>
          if legal_domain env request_video_url then
            (Inr (JSONResponse 200 (make_response 200 msg_success
                    (Some [(''download_url'', JStr request_video_url)]) None True)), w)
          else server_side_download env request_video_url request_video_id w)"

definition download_video ::
  "env \<Rightarrow> string \<Rightarrow> string \<Rightarrow> string \<Rightarrow> string \<Rightarrow> string \<Rightarrow> world \<Rightarrow> json_response \<times> world" where
  "download_video env request_video_url request_video_id x_timestamp x_gclt_text x_egct_text w =
     catch_all (download_video_body env request_video_url request_video_id
                  x_timestamp x_gclt_text x_egct_text w)"

section \<open>The materialize operation, Flask blueprint (src/api/download.py, download)\<close>

definition download_body :: "env \<Rightarrow> string \<Rightarrow> string \<Rightarrow> world \<Rightarrow> (py_exception + json_response) \<times> world" where
  "download_body env request_video_url request_video_id w =
     (case validate_request env request_video_url of
        Some validation_result \<Rightarrow> (Inr validation_result, w)
      | None \<Rightarrow>
          if legal_domain env request_video_url then
            (Inr (JSONResponse 200 (make_response 200 msg_success
                    (Some [(''download_url'', JStr request_video_url)]) None True)), w)
          else server_side_download env request_video_url request_video_id w)"

definition download :: "env \<Rightarrow> string \<Rightarrow> string \<Rightarrow> world \<Rightarrow> json_response \<times> world" where
  "download env request_video_url request_video_id w =
     catch_all (download_body env request_video_url request_video_id w)"

section \<open>The merge operation (app.py, VideoClient.merge\_video\_audio)\<close>

definition msg_merge_ok :: string where
  "msg_merge_ok = [CHR 0xE5, CHR 0x90, CHR 0x88, CHR 0xE5, CHR 0xB9, CHR 0xB6, CHR 0xE6, CHR 0x88, CHR 0x90, CHR 0xE5, CHR 0x8A, CHR 0x9F]"

definition msg_merge_failed :: string where
  "msg_merge_failed = [CHR 0xE5, CHR 0x90, CHR 0x88, CHR 0xE5, CHR 0xB9, CHR 0xB6, CHR 0xE5, CHR 0xA4, CHR 0xB1, CHR 0xE8, CHR 0xB4, CHR 0xA5] @ '': ''"

definition msg_no_ffmpeg :: string where
  "msg_no_ffmpeg = [CHR 0xE6, CHR 0x9C, CHR 0xAA, CHR 0xE5, CHR 0xAE, CHR 0x89, CHR 0xE8, CHR 0xA3, CHR 0x85] @ '' ffmpeg'' @ [CHR 0xEF, CHR 0xBC, CHR 0x8C, CHR 0xE8, CHR 0xAF, CHR 0xB7, CHR 0xE5, CHR 0x85, CHR 0x88, CHR 0xE5, CHR 0xAE, CHR 0x89, CHR 0xE8, CHR 0xA3, CHR 0x85] @ '' ffmpeg''"

definition msg_merging :: string where
  "msg_merging = [CHR 0xE6, CHR 0xAD, CHR 0xA3, CHR 0xE5, CHR 0x9C, CHR 0xA8, CHR 0xE5, CHR 0x90, CHR 0x88, CHR 0xE5, CHR 0xB9, CHR 0xB6, CHR 0xE9, CHR 0x9F, CHR 0xB3, CHR 0xE8, CHR 0xA7, CHR 0x86, CHR 0xE9, CHR 0xA2, CHR 0x91] @ ''...''"

definition msg_merge_done :: string where
  "msg_merge_done = [CHR 0xE5, CHR 0x90, CHR 0x88, CHR 0xE5, CHR 0xB9, CHR 0xB6, CHR 0xE5, CHR 0xAE, CHR 0x8C, CHR 0xE6, CHR 0x88, CHR 0x90] @ '': ''"

definition msg_warn_no_ffmpeg :: string where
  "msg_warn_no_ffmpeg = [CHR 0xE8, CHR 0xAD, CHR 0xA6, CHR 0xE5, CHR 0x91, CHR 0x8A] @ '': '' @ [CHR 0xE6, CHR 0x9C, CHR 0xAA, CHR 0xE5, CHR 0xAE, CHR 0x89, CHR 0xE8, CHR 0xA3, CHR 0x85] @ ''ffmpeg'' @ [CHR 0xEF, CHR 0xBC, CHR 0x8C, CHR 0xE6, CHR 0x97, CHR 0xA0, CHR 0xE6, CHR 0xB3, CHR 0x95, CHR 0xE5, CHR 0x90, CHR 0x88, CHR 0xE5, CHR 0xB9, CHR 0xB6, CHR 0xE9, CHR 0x9F, CHR 0xB3, CHR 0xE8, CHR 0xA7, CHR 0x86, CHR 0xE9, CHR 0xA2, CHR 0x91]"

definition msg_install_ffmpeg :: string where
  "msg_install_ffmpeg = [CHR 0xE8, CHR 0xAF, CHR 0xB7, CHR 0xE5, CHR 0xAE, CHR 0x89, CHR 0xE8, CHR 0xA3, CHR 0x85] @ ''ffmpeg: sudo apt install ffmpeg''"

definition ffmpeg_cmd :: "string \<Rightarrow> string \<Rightarrow> string \<Rightarrow> string list" where
  "ffmpeg_cmd video_path audio_path output_path =
     [''ffmpeg'', ''-y'', ''-i'', video_path, ''-i'', audio_path, ''-c:v'', ''copy'',
      ''-c:a'', ''aac'', ''-strict'', ''experimental'', output_path]"

text \<open>
  \<open>subprocess.run(cmd, capture_output=True, text=True)\<close>: it raises (\<open>FileNotFoundError\<close>
  when the program is not installed) and leaves the disk alone, or the program runs,
  leaves the disk as it pleases and returns its exit code and diagnostic text.
\<close>

definition run_subprocess :: "env \<Rightarrow> string list \<Rightarrow> world \<Rightarrow> (py_exception + completed_process) \<times> world" where
  "run_subprocess env cmd w =
     (case subprocess_run env cmd (files w) of
        Inl e \<Rightarrow> (Inl e, w)
      | Inr (result, fs) \<Rightarrow> (Inr result, w\<lparr>files := fs, trace := trace w @ [Subprocess cmd]\<rparr>))"

text \<open>The \<open>try\<close> block of \<open>merge_video_audio\<close>, then the whole method with its handler
  \<open>except FileNotFoundError\<close>; any other exception leaves the method (\<open>Inl\<close>).\<close>

definition merge_try :: "env \<Rightarrow> string \<Rightarrow> string \<Rightarrow> string \<Rightarrow> world \<Rightarrow> (py_exception + bool \<times> string) \<times> world" where
  "merge_try env video_path audio_path output_path w =
     (let cmd = ffmpeg_cmd video_path audio_path output_path in
      case run_subprocess env cmd w of
        (Inl e, w1) \<Rightarrow> (Inl e, w1)
      | (Inr result, w1) \<Rightarrow>
          if returncode result = 0 then
            (case os_remove video_path w1 of
               Inl e \<Rightarrow> (Inl e, w1)
             | Inr w2 \<Rightarrow>
                 (case os_remove audio_path w2 of
                    Inl e \<Rightarrow> (Inl e, w2)
                  | Inr w3 \<Rightarrow> (Inr (True, msg_merge_ok), w3)))
          else (Inr (False, msg_merge_failed @ stderr result), w1))"

definition merge_video_audio ::
  "env \<Rightarrow> string \<Rightarrow> string \<Rightarrow> string \<Rightarrow> world \<Rightarrow> (py_exception + bool \<times> string) \<times> world" where
  "merge_video_audio env video_path audio_path output_path w =
     (case merge_try env video_path audio_path output_path w of
        (Inl e, w') \<Rightarrow>
          if isinstance e C_FileNotFoundError then (Inr (False, msg_no_ffmpeg), w') else (Inl e, w')
      | (Inr r, w') \<Rightarrow> (Inr r, w'))"

section \<open>The merge operation of the Bilibili test client (test\_client/client\_bilibili.py)\<close>

text \<open>\<open>os.path.basename\<close>: what follows the last slash.\<close>

definition os_path_basename :: "string \<Rightarrow> string" where
  "os_path_basename p = rev (takeWhile (\<lambda>c. c \<noteq> CHR ''/'') (rev p))"

definition print :: "string \<Rightarrow> world \<Rightarrow> world" where
  "print s w = w\<lparr>trace := trace w @ [Print s]\<rparr>"

definition client_merge_try :: "env \<Rightarrow> string \<Rightarrow> string \<Rightarrow> string \<Rightarrow> world \<Rightarrow> (py_exception + bool) \<times> world" where
  "client_merge_try env video_path audio_path output_path w =
     (let w0 = print msg_merging w;
          cmd = ffmpeg_cmd video_path audio_path output_path in
      case run_subprocess env cmd w0 of
        (Inl e, w1) \<Rightarrow> (Inl e, w1)
      | (Inr result, w1) \<Rightarrow>
          if returncode result = 0 then
            (let w1' = print (msg_merge_done @ os_path_basename output_path) w1 in
             case os_remove video_path w1' of
               Inl e \<Rightarrow> (Inl e, w1')
             | Inr w2 \<Rightarrow>
                 (case os_remove audio_path w2 of
                    Inl e \<Rightarrow> (Inl e, w2)
                  | Inr w3 \<Rightarrow> (Inr True, w3)))
          else (Inr False, print (msg_merge_failed @ stderr result) w1))"

definition client_merge_video_audio ::
  "env \<Rightarrow> string \<Rightarrow> string \<Rightarrow> string \<Rightarrow> world \<Rightarrow> (py_exception + bool) \<times> world" where
  "client_merge_video_audio env video_path audio_path output_path w =
     (case client_merge_try env video_path audio_path output_path w of
        (Inl e, w') \<Rightarrow>
          if isinstance e C_FileNotFoundError
          then (Inr False, print msg_install_ffmpeg (print msg_warn_no_ffmpeg w'))
          else (Inl e, w')
      | (Inr r, w') \<Rightarrow> (Inr r, w'))"

section \<open>Two download handlers on one disk\<close>

text \<open>
  The server-side download of one request as two steps on the shared world: the test
  \<open>os.path.exists(video_path)\<close>, whose answer the handler keeps, and what follows it.
  Nothing in either source file holds a lock between the two, so another handler may take
  a step in between.
\<close>

datatype handler = Idle | Checked bool | Returned "py_exception + json_response"

fun handler_step :: "env \<Rightarrow> string \<Rightarrow> string \<Rightarrow> handler \<times> world \<Rightarrow> handler \<times> world" where
  "handler_step env url vid (Idle, w) = (Checked (os_path_exists w (video_path_of env vid)), w)"
| "handler_step env url vid (Checked present, w) =
     (if \<not> present then
        (case download_and_save env url (video_path_of env vid) (download_url_of env vid) w of
           (r, w') \<Rightarrow> (Returned r, w'))
      else
        (Returned (Inr (JSONResponse 200 (make_response 200 msg_success
           (Some [(''download_url'', JStr (download_url_of env vid))]) None True))), w))"
| "handler_step env url vid (Returned r, w) = (Returned r, w)"

datatype tid = First | Second

record race =
  shared :: world
  handler1 :: handler
  handler2 :: handler

text \<open>Two requests for the same \<open>video_id\<close>, with links \<open>url1\<close> and \<open>url2\<close>; a schedule names
  the handler that takes the next step.\<close>

fun sched_step :: "env \<Rightarrow> string \<Rightarrow> string \<Rightarrow> string \<Rightarrow> race \<Rightarrow> tid \<Rightarrow> race" where
  "sched_step env url1 url2 vid s First =
     (case handler_step env url1 vid (handler1 s, shared s) of
        (h, w) \<Rightarrow> s\<lparr>shared := w, handler1 := h\<rparr>)"
| "sched_step env url1 url2 vid s Second =
     (case handler_step env url2 vid (handler2 s, shared s) of
        (h, w) \<Rightarrow> s\<lparr>shared := w, handler2 := h\<rparr>)"

definition run_schedule :: "env \<Rightarrow> string \<Rightarrow> string \<Rightarrow> string \<Rightarrow> tid list \<Rightarrow> world \<Rightarrow> race" where
  "run_schedule env url1 url2 vid schedule w =
     foldl (sched_step env url1 url2 vid) \<lparr>shared = w, handler1 = Idle, handler2 = Idle\<rparr> schedule"

text \<open>The number of HTTP fetches in the trace of a world.\<close>

fun is_fetch :: "effect \<Rightarrow> bool" where
  "is_fetch (HttpGet url headers) = True"
| "is_fetch e = False"

definition fetches :: "world \<Rightarrow> nat" where
  "fetches w = length (filter is_fetch (trace w))"

section \<open>Vocabulary of the properties\<close>

text \<open>Reading a field of the \<open>data\<close> dictionary of a response.\<close>

definition data_field :: "json_response \<Rightarrow> string \<Rightarrow> jval option" where
  "data_field resp key = (case data (content resp) of None \<Rightarrow> None | Some d \<Rightarrow> map_of d key)"

text \<open>
  \<open>yields env platform real_url i r\<close>: the \<open>(i+1)\<close>-th extractor of a request is constructed
  without an exception and its three accessors return the values of \<open>r\<close>.
\<close>

definition yields :: "env \<Rightarrow> string \<Rightarrow> string option \<Rightarrow> nat \<Rightarrow> extraction \<Rightarrow> bool" where
  "yields env platform real_url i r = (extract_once env platform real_url i = (Inr r, Suc i))"

text \<open>The audio accessor of the extractor that was read last does not raise.\<close>

definition audio_ok :: "extraction \<Rightarrow> bool" where
  "audio_ok r =
     (case the_downloader r of
        None \<Rightarrow> True
      | Some d \<Rightarrow> (case get_audio_url d of Some (Inl e) \<Rightarrow> False | _ \<Rightarrow> True))"

section \<open>Example environments\<close>

text \<open>
  A small world used to run the model on concrete requests: the clock reads 1000 ms, the
  cipher check accepts everything, a text is its own link, no redirect is followed, the
  domain of a link is its text up to the first slash (the examples write links without
  a scheme), the \<open>(n+1)\<close>-th extractor constructed is \<open>f n\<close>, the remote host answers
  as \<open>net\<close> says, the disk takes every write, and no transcoder is installed.
\<close>

definition d_none :: downloader where
  "d_none = \<lparr>get_title_content = Inr None, get_real_video_url = Inr None,
              get_cover_photo_url = Inr None, get_audio_url = None\<rparr>"

definition d_empty :: downloader where
  "d_empty = \<lparr>get_title_content = Inr (Some ''t''), get_real_video_url = Inr (Some []),
               get_cover_photo_url = Inr None, get_audio_url = None\<rparr>"

definition d_ok :: downloader where
  "d_ok = \<lparr>get_title_content = Inr (Some ''t''), get_real_video_url = Inr (Some ''http://v/1.mp4''),
            get_cover_photo_url = Inr (Some ''https://c/1.jpg''), get_audio_url = None\<rparr>"

definition example_env :: "(nat \<Rightarrow> downloader) \<Rightarrow> (string \<Rightarrow> py_exception + response) \<Rightarrow> env" where
  "example_env f net =
     \<lparr>now_ms = 1000,
      py_int = (\<lambda>s. if s = ''1000'' then Some 1000 else None),
      verify_decryption = (\<lambda>ts e g. True),
      get_url = (\<lambda>t. if t = [] then None else Some t),
      fetch_redirect_url = (\<lambda>u. None),
      get_domain = (\<lambda>u. map_option (takeWhile (\<lambda>c. c \<noteq> CHR ''/'')) u),
      get_video_id = (\<lambda>u. Some ''vid''),
      extract_video_address = (\<lambda>u. u),
      DOMAIN_TO_NAME = [''xhslink.com'' \<mapsto> xiaohongshu, ''b23.tv'' \<mapsto> bilibili],
      create_downloader = (\<lambda>n p u. Inr (f n)),
      MINI_PROGRAM_LEGAL_DOMAIN = [''ok.example''],
      SAVE_VIDEO_PATH = ''/srv/static/videos'',
      DOMAIN = Some ''https://parser.example'',
      session_get = (\<lambda>u h. net u),
      open_error = (\<lambda>p. None),
      write_error = (\<lambda>p n. None),
      validate_request = (\<lambda>t. None),
      subprocess_run = (\<lambda>cmd fs. Inl FileNotFoundError)\<rparr>"

text \<open>
  \<open>resolved out k v\<close>: the operation returned the success response (HTTP 200, \<open>retcode\<close> 200,
  \<open>succ\<close> true), its \<open>data.video_url\<close> is \<open>v\<close>, and \<open>k\<close> extractor instances were
  constructed on the way.
\<close>

definition resolved :: "json_response \<times> nat \<Rightarrow> nat \<Rightarrow> jval \<Rightarrow> bool" where
  "resolved out k v =
     (snd out = k \<and> status_code (fst out) = 200 \<and> retcode (content (fst out)) = 200
      \<and> retdesc (content (fst out)) = msg_success \<and> succ (content (fst out))
      \<and> data_field (fst out) ''video_url'' = Some v)"

text \<open>The two responses of the download handlers that carry a link: the success
  response and the fallback to the remote address.\<close>

definition served :: "string \<Rightarrow> json_response" where
  "served u = JSONResponse 200 (make_response 200 msg_success (Some [(''download_url'', JStr u)]) None True)"

definition fell_back :: "string \<Rightarrow> json_response" where
  "fell_back u =
     JSONResponse 200 (make_response 200 msg_download_fallback (Some [(''download_url'', JStr u)]) None True)"

text \<open>
  \<open>success_shaped url resp\<close>: the response has HTTP status 200, \<open>retcode\<close> 200 and \<open>succ\<close>
  true, its \<open>data.download_url\<close> is a string, and either its message is that of success
  or it is the fallback message and the link is the request's own \<open>url\<close>.
\<close>

definition success_shaped :: "string \<Rightarrow> json_response \<Rightarrow> bool" where
  "success_shaped url resp =
     (status_code resp = 200 \<and> retcode (content resp) = 200 \<and> succ (content resp)
      \<and> (case data_field resp ''download_url'' of
            Some (JStr u) \<Rightarrow>
              retdesc (content resp) = msg_success
              \<or> (retdesc (content resp) = msg_download_fallback \<and> u = url)
          | _ \<Rightarrow> False))"

definition unsupported_link :: json_response where
  "unsupported_link = JSONResponse 400 (make_response 400 msg_unsupported None None False)"

text \<open>Three worlds for a Xiaohongshu link: the third extractor is the first to find the
  video; the first extractor returns the empty string and the others nothing; no
  extractor finds anything.\<close>

definition offline :: "string \<Rightarrow> py_exception + response" where
  "offline u = Inl ConnectionError"

definition env_third :: env where
  "env_third = example_env (\<lambda>n. if n = 2 then d_ok else d_none) offline"

definition env_empty_first :: env where
  "env_empty_first = example_env (\<lambda>n. if n = 0 then d_empty else d_none) offline"

definition env_all_none :: env where
  "env_all_none = example_env (\<lambda>n. d_none) offline"

text \<open>
  Worlds for the download handler. The videos directory holds \<open>old.mp4\<close>. The remote
  host \<open>cdn.example\<close> is not on the allow-list; it answers with two chunks and then, in
  \<open>env_truncated\<close>, breaks the stream, in \<open>env_complete\<close> ends it; in \<open>env_offline\<close>
  the connection fails; in \<open>env_forbidden\<close> the status is 403.
\<close>

definition disk :: world where
  "disk = \<lparr>files = [''/srv/static/videos/old.mp4'' \<mapsto> ''cached''], trace = []\<rparr>"

definition truncated :: "string \<Rightarrow> py_exception + response" where
  "truncated u = Inr \<lparr>resp_status = 200, body_chunks = [''ab'', [], ''cd''],
                      body_error = Some ChunkedEncodingError\<rparr>"

definition complete :: "string \<Rightarrow> py_exception + response" where
  "complete u = Inr \<lparr>resp_status = 200, body_chunks = [''ab'', [], ''cd''], body_error = None\<rparr>"

definition forbidden :: "string \<Rightarrow> py_exception + response" where
  "forbidden u = Inr \<lparr>resp_status = 403, body_chunks = [], body_error = None\<rparr>"

definition env_truncated :: env where
  "env_truncated = example_env (\<lambda>n. d_none) truncated"

definition env_complete :: env where
  "env_complete = example_env (\<lambda>n. d_none) complete"

definition env_offline :: env where
  "env_offline = example_env (\<lambda>n. d_none) offline"

definition env_forbidden :: env where
  "env_forbidden = example_env (\<lambda>n. d_none) forbidden"

definition env_disk_full :: env where
  "env_disk_full = env_complete\<lparr>write_error := (\<lambda>p n. if n = 1 then Some IOError else None)\<rparr>"



definition env_nul_path :: env where
  "env_nul_path = env_complete\<lparr>open_error := (\<lambda>p. if CHR 0x00 \<in> set p then Some ValueError else None)\<rparr>"

text \<open>
  \<open>merge_job\<close>: the two input tracks are different files that exist, and the output
  path is neither of them. \<open>inputs_kept\<close>: both inputs are on the second disk as they were
  on the first.
\<close>

definition merge_job :: "string \<Rightarrow> string \<Rightarrow> string \<Rightarrow> world \<Rightarrow> bool" where
  "merge_job video_path audio_path output_path w =
     (video_path \<noteq> audio_path \<and> output_path \<noteq> video_path \<and> output_path \<noteq> audio_path
      \<and> os_path_exists w video_path \<and> os_path_exists w audio_path)"

definition inputs_kept :: "string \<Rightarrow> string \<Rightarrow> (string \<rightharpoonup> string) \<Rightarrow> (string \<rightharpoonup> string) \<Rightarrow> bool" where
  "inputs_kept video_path audio_path fs fs' =
     (fs' video_path = fs video_path \<and> fs' audio_path = fs audio_path)"

text \<open>
  Worlds for the merge: the two tracks of a video are on disk; the transcoder is not
  installed (\<open>env_offline\<close>), or it writes its last argument and exits with 0, or it
  exits with 1 and a diagnostic.
\<close>

definition tracks :: world where
  "tracks = \<lparr>files = [''/tmp/v.m4s'' \<mapsto> ''video'', ''/tmp/a.m4s'' \<mapsto> ''audio''], trace = []\<rparr>"

definition env_ffmpeg_ok :: env where
  "env_ffmpeg_ok = env_offline\<lparr>subprocess_run :=
     (\<lambda>cmd fs. Inr (\<lparr>returncode = 0, stderr = []\<rparr>, fs(last cmd \<mapsto> ''merged'')))\<rparr>"

definition env_ffmpeg_fails :: env where
  "env_ffmpeg_fails = env_offline\<lparr>subprocess_run :=
     (\<lambda>cmd fs. Inr (\<lparr>returncode = 1, stderr = ''Invalid data''\<rparr>, fs))\<rparr>"

section \<open>Properties: the retry loop\<close>

lemma retry_loop_first_success:
  assumes "a + j < m"
    and "\<forall>i<j. yields env p u (n + i) (rs i) \<and> \<not> truthy (video_url (rs i))"
    and "yields env p u (n + j) r" and "truthy (video_url r)"
  shows "retry_loop env p u m a cur n = (Inr r, Suc (n + j))"
  using assms
proof (induction j arbitrary: a n cur rs)
  case 0
  then show ?case by (subst retry_loop.simps) (simp add: yields_def)
next
  case (Suc j)
  have first: "yields env p u n (rs 0)" "\<not> truthy (video_url (rs 0))"
    using Suc.prems(2) by (auto dest: spec [of _ 0])
  have rest: "\<forall>i<j. yields env p u (Suc n + i) (rs (Suc i)) \<and> \<not> truthy (video_url (rs (Suc i)))"
    using Suc.prems(2) by auto
  have "retry_loop env p u m (Suc a) (rs 0) (Suc n) = (Inr r, Suc (Suc n + j))"
    by (rule Suc.IH [OF _ rest]) (use Suc.prems in auto)
  moreover have "a < m" using Suc.prems(1) by simp
  ultimately show ?case
    using first by (subst retry_loop.simps) (simp add: yields_def)
qed

lemma retry_loop_exhausted:
  assumes "\<forall>i<m - a. yields env p u (n + i) (rs i) \<and> \<not> truthy (video_url (rs i))"
  shows "retry_loop env p u m a cur n =
           (Inr (if a < m then rs (m - a - 1) else cur), n + (m - a))"
  using assms
proof (induction "m - a" arbitrary: a n cur rs)
  case 0
  then show ?case by (subst retry_loop.simps) simp
next
  case (Suc k)
  have am: "a < m" and k: "k = m - Suc a" using Suc.hyps(2) by auto
  have first: "yields env p u n (rs 0)" "\<not> truthy (video_url (rs 0))"
    using Suc.prems Suc.hyps(2) by (auto dest: spec [of _ 0])
  have rest: "\<forall>i<m - Suc a. yields env p u (Suc n + i) (rs (Suc i)) \<and> \<not> truthy (video_url (rs (Suc i)))"
  proof (intro allI impI)
    fix i assume "i < m - Suc a"
    then have "Suc i < m - a" using am by simp
    then show "yields env p u (Suc n + i) (rs (Suc i)) \<and> \<not> truthy (video_url (rs (Suc i)))"
      using Suc.prems by (metis add_Suc_shift)
  qed
  have IH: "retry_loop env p u m (Suc a) (rs 0) (Suc n) =
          (Inr (if Suc a < m then rs (Suc (m - Suc a - 1)) else rs 0), Suc n + (m - Suc a))"
    using Suc.hyps(1) [OF k rest] .
  have idx: "(if Suc a < m then rs (Suc (m - Suc a - 1)) else rs 0) = rs (m - a - 1)"
    using am by (auto simp: not_less) (metis Suc_diff_Suc diff_Suc_1 diff_diff_left plus_1_eq_Suc le_antisym Suc_leI diff_self_eq_0)
  show ?case
    using first am IH idx by (subst retry_loop.simps) (simp add: yields_def)
qed

lemma xiaohongshu_not_empty: "xiaohongshu \<noteq> []"
  by (simp add: xiaohongshu_def)

lemma xiaohongshu_not_bilibili: "xiaohongshu \<noteq> bilibili"
  by (simp add: xiaohongshu_def bilibili_def)

lemma parse_video_body_located:
  assumes "validate_request_headers env xt xg xe [text] = None"
    and "get_url env text = Some link" and "link \<noteq> []"
    and "locate env (Some link) = (Some p, video_id, real_url)" and "p \<noteq> []"
  shows "parse_video_body env text xt xg xe =
           (case extract_media env p real_url of
              (Inl e, n) \<Rightarrow> (Inl e, n)
            | (Inr r, n) \<Rightarrow> (parse_success video_id p r, n))"
  using assms by (simp add: parse_video_body_def)

lemma parse_body_located:
  assumes "validate_request env text = None"
    and "locate env (get_url env text) = (Some p, video_id, real_url)" and "p \<noteq> []"
  shows "parse_body env text =
           (case extract_media env p real_url of
              (Inl e, n) \<Rightarrow> (Inl e, n)
            | (Inr r, n) \<Rightarrow> (parse_success video_id p r, n))"
  using assms by (simp add: parse_body_def)

lemma map_of_build_data_dict:
  "map_of (build_data_dict video_id p r) ''video_url'' = Some (jstr (convert_to_https (video_url r)))"
  by (simp add: build_data_dict_def)

lemma parse_success_audio_ok:
  assumes "audio_ok r"
  shows "\<exists>d. parse_success video_id p r =
               Inr (JSONResponse 200 (make_response 200 msg_success (Some d) None True))
             \<and> map_of d ''video_url'' = Some (jstr (convert_to_https (video_url r)))"
  using assms
  by (auto simp: parse_success_def add_audio_url_def audio_ok_def map_of_build_data_dict
        update_conv' split: option.splits sum.splits)

lemma audio_ok_other_platform:
  assumes "p \<noteq> bilibili"
  shows "parse_success video_id p r =
           Inr (JSONResponse 200 (make_response 200 msg_success (Some (build_data_dict video_id p r)) None True))"
  using assms by (simp add: parse_success_def add_audio_url_def)

lemma resolved_success:
  assumes "body = (case ex of (Inl e, n) \<Rightarrow> (Inl e, n) | (Inr r, n) \<Rightarrow> (parse_success video_id p r, n))"
    and "ex = (Inr r, k)" and "p \<noteq> bilibili \<or> audio_ok r"
    and "out = catch_all body"
  shows "resolved out k (jstr (convert_to_https (video_url r)))"
proof (cases "p = bilibili")
  case False
  then show ?thesis
    using assms(1,2,4)
    by (simp add: audio_ok_other_platform resolved_def JSONResponse_def make_response_def
          data_field_def map_of_build_data_dict catch_all_def)
next
  case True
  then have "audio_ok r" using assms(3) by simp
  from parse_success_audio_ok [OF this, of video_id p] obtain d where
    "parse_success video_id p r = Inr (JSONResponse 200 (make_response 200 msg_success (Some d) None True))"
    "map_of d ''video_url'' = Some (jstr (convert_to_https (video_url r)))" by blast
  then show ?thesis
    using assms(1,2,4)
    by (simp add: resolved_def JSONResponse_def make_response_def data_field_def catch_all_def)
qed

lemma extract_media_first_success:
  assumes "1 \<le> k" and "k \<le> 5"
    and "\<forall>i<k - 1. \<exists>r. yields env xiaohongshu u i r \<and> \<not> truthy (video_url r)"
    and "yields env xiaohongshu u (k - 1) r" and "truthy (video_url r)"
  shows "extract_media env xiaohongshu u = (Inr r, k)"
proof -
  from assms(3) obtain rs where
    rs: "\<forall>i<k - 1. yields env xiaohongshu u (0 + i) (rs i) \<and> \<not> truthy (video_url (rs i))"
    by (auto simp: choice_iff' dest!: choice [where Q = "\<lambda>i r. i < k - 1 \<longrightarrow> yields env xiaohongshu u i r \<and> \<not> truthy (video_url r)", rotated -1])
  have "retry_loop env xiaohongshu u 5 0 no_extraction 0 = (Inr r, Suc (0 + (k - 1)))"
    by (rule retry_loop_first_success [OF _ rs]) (use assms in auto)
  then show ?thesis using assms(1) by (simp add: extract_media_def)
qed

lemma extract_media_exhausted:
  assumes "\<forall>i<5. \<exists>r. yields env xiaohongshu u i r \<and> \<not> truthy (video_url r)"
  shows "\<exists>r. extract_media env xiaohongshu u = (Inr r, 5) \<and> yields env xiaohongshu u 4 r"
proof -
  have "\<exists>rs. \<forall>i. i < 5 \<longrightarrow> yields env xiaohongshu u i (rs i) \<and> \<not> truthy (video_url (rs i))"
    using assms by (intro choice) auto
  then obtain rs where
    rs: "\<forall>i<5 - 0. yields env xiaohongshu u (0 + i) (rs i) \<and> \<not> truthy (video_url (rs i))"
    by auto
  have "retry_loop env xiaohongshu u 5 0 no_extraction 0 =
           (Inr (if (0::nat) < 5 then rs (5 - 0 - 1) else no_extraction), 0 + (5 - 0))"
    by (rule retry_loop_exhausted [OF rs])
  moreover have "yields env xiaohongshu u 4 (rs 4)" using rs by simp
  ultimately show ?thesis by (simp add: extract_media_def)
qed

section \<open>Properties: the resolve operation\<close>

lemma parse_video_resolved:
  assumes "validate_request_headers env xt xg xe [text] = None"
    and "get_url env text = Some link" and "link \<noteq> []"
    and "locate env (Some link) = (Some p, video_id, real_url)" and "p \<noteq> []"
    and "extract_media env p real_url = (Inr r, k)" and "p \<noteq> bilibili \<or> audio_ok r"
  shows "resolved (parse_video env text xt xg xe) k (jstr (convert_to_https (video_url r)))"
  by (rule resolved_success [OF parse_video_body_located [OF assms(1-5)] assms(6,7)])
     (simp add: parse_video_def catch_all_def)

lemma parse_resolved:
  assumes "validate_request env text = None"
    and "locate env (get_url env text) = (Some p, video_id, real_url)" and "p \<noteq> []"
    and "extract_media env p real_url = (Inr r, k)" and "p \<noteq> bilibili \<or> audio_ok r"
  shows "resolved (parse env text) k (jstr (convert_to_https (video_url r)))"
  by (rule resolved_success [OF parse_body_located [OF assms(1-3)] assms(4,5)])
     (simp add: parse_def catch_all_def)

text \<open>
  Claim C1, as the code has it. A request reaches the Xiaohongshu branch (its link is
  classified as that platform). Every attempt of the loop constructs a new extractor
  (\<open>extract_once\<close> is called with the next index). If the first \<open>k - 1\<close> extractors,
  \<open>1 \<le> k \<le> 5\<close>, yield no usable URL (\<open>None\<close> or the empty string) and the \<open>k\<close>-th yields
  the non-empty URL \<open>v\<close>, then exactly \<open>k\<close> extractors are constructed and the success
  response carries \<open>v\<close>, normalised by \<open>convert_to_https\<close>. If all five extractors yield
  \<open>None\<close>, exactly five are constructed and the operation returns the success response with
  \<open>video_url\<close> null, not the response of the exception handler. Both for \<open>parse_video\<close>
  (api.py) and for \<open>parse\<close> (src/api/parse.py).
\<close>

theorem xiaohongshu_retry_first_usable_url:
  assumes "get_url env text = Some link" and "link \<noteq> []"
    and "locate env (Some link) = (Some xiaohongshu, video_id, real_url)"
  shows "(1 \<le> k \<and> k \<le> 5
          \<and> (\<forall>i<k - 1. \<exists>r. yields env xiaohongshu real_url i r \<and> \<not> truthy (video_url r))
          \<and> yields env xiaohongshu real_url (k - 1) r \<and> video_url r = Some v \<and> v \<noteq> []
          \<longrightarrow> (validate_request_headers env xt xg xe [text] = None
                 \<longrightarrow> resolved (parse_video env text xt xg xe) k (jstr (convert_to_https (Some v))))
              \<and> (validate_request env text = None
                 \<longrightarrow> resolved (parse env text) k (jstr (convert_to_https (Some v)))))
       \<and> ((\<forall>i<5. \<exists>r. yields env xiaohongshu real_url i r \<and> video_url r = None)
          \<longrightarrow> (validate_request_headers env xt xg xe [text] = None
                 \<longrightarrow> resolved (parse_video env text xt xg xe) 5 JNull)
              \<and> (validate_request env text = None
                 \<longrightarrow> resolved (parse env text) 5 JNull))"
proof (intro conjI impI)
  assume h: "1 \<le> k \<and> k \<le> 5
          \<and> (\<forall>i<k - 1. \<exists>r. yields env xiaohongshu real_url i r \<and> \<not> truthy (video_url r))
          \<and> yields env xiaohongshu real_url (k - 1) r \<and> video_url r = Some v \<and> v \<noteq> []"
  then have ex: "extract_media env xiaohongshu real_url = (Inr r, k)"
    by (intro extract_media_first_success) auto
  have v: "video_url r = Some v" using h by simp
  {
    assume "validate_request_headers env xt xg xe [text] = None"
    from parse_video_resolved [OF this assms(1,2,3) xiaohongshu_not_empty ex]
    show "resolved (parse_video env text xt xg xe) k (jstr (convert_to_https (Some v)))"
      using v xiaohongshu_not_bilibili by simp
  }
  {
    assume "validate_request env text = None"
    from parse_resolved [OF this _ xiaohongshu_not_empty ex]
    show "resolved (parse env text) k (jstr (convert_to_https (Some v)))"
      using v xiaohongshu_not_bilibili assms by simp
  }
next
  assume h: "\<forall>i<5. \<exists>r. yields env xiaohongshu real_url i r \<and> video_url r = None"
  then have "\<forall>i<5. \<exists>r. yields env xiaohongshu real_url i r \<and> \<not> truthy (video_url r)"
    by (metis truthy.simps(1))
  from extract_media_exhausted [OF this] obtain r where
    ex: "extract_media env xiaohongshu real_url = (Inr r, 5)"
    and r: "yields env xiaohongshu real_url 4 r" by blast
  from h r have v: "video_url r = None" by (auto simp: yields_def dest!: spec [of _ 4])
  {
    assume "validate_request_headers env xt xg xe [text] = None"
    from parse_video_resolved [OF this assms(1,2,3) xiaohongshu_not_empty ex]
    show "resolved (parse_video env text xt xg xe) 5 JNull"
      using v xiaohongshu_not_bilibili by (simp add: convert_to_https_def)
  }
  {
    assume "validate_request env text = None"
    from parse_resolved [OF this _ xiaohongshu_not_empty ex]
    show "resolved (parse env text) 5 JNull"
      using v xiaohongshu_not_bilibili assms by (simp add: convert_to_https_def)
  }
qed

lemmas example_defs =
  example_env_def env_third_def env_empty_first_def env_all_none_def d_none_def d_ok_def d_empty_def
  offline_def

lemmas parse_defs =
  catch_all_def parse_video_def parse_video_body_def parse_def parse_body_def validate_request_headers_def
  validate_timestamp_def locate_def extract_media_def extract_once_def read_downloader_def
  parse_success_def add_audio_url_def build_data_dict_def convert_to_https_def
  make_response_def JSONResponse_def data_field_def resolved_def yields_def
  xiaohongshu_def bilibili_def msg_success_def

text \<open>The theorem at work: the third extractor is the first to find the video; and no
  extractor finds anything.\<close>

theorem xiaohongshu_retry_third_attempt_witness:
  "resolved (parse_video env_third ''xhslink.com/a'' ''1000'' ''g'' ''e'') 3 (JStr ''https://v/1.mp4'')
   \<and> resolved (parse env_third ''xhslink.com/a'') 3 (JStr ''https://v/1.mp4'')
   \<and> resolved (parse_video env_all_none ''xhslink.com/a'' ''1000'' ''g'' ''e'') 5 JNull
   \<and> resolved (parse env_all_none ''xhslink.com/a'') 5 JNull"
proof -
  have loc3: "locate env_third (Some ''xhslink.com/a'') = (Some xiaohongshu, Some ''vid'', Some ''xhslink.com/a'')"
    by (simp add: example_defs locate_def)
  have loc0: "locate env_all_none (Some ''xhslink.com/a'') = (Some xiaohongshu, Some ''vid'', Some ''xhslink.com/a'')"
    by (simp add: example_defs locate_def)
  have url3: "get_url env_third ''xhslink.com/a'' = Some ''xhslink.com/a''"
    and url0: "get_url env_all_none ''xhslink.com/a'' = Some ''xhslink.com/a''"
    by (simp_all add: example_defs)
  have ne: "''xhslink.com/a'' \<noteq> []" by simp
  have a: "(\<forall>i<3 - 1. \<exists>r. yields env_third xiaohongshu (Some ''xhslink.com/a'') i r \<and> \<not> truthy (video_url r))"
    by (simp add: example_defs yields_def extract_once_def read_downloader_def)
  have b: "yields env_third xiaohongshu (Some ''xhslink.com/a'') (3 - 1)
             \<lparr>title = Some ''t'', video_url = Some ''http://v/1.mp4'', cover_url = Some ''https://c/1.jpg'',
              the_downloader = Some d_ok\<rparr>"
    by (simp add: example_defs yields_def extract_once_def read_downloader_def)
  have c: "\<forall>i<5. \<exists>r. yields env_all_none xiaohongshu (Some ''xhslink.com/a'') i r \<and> video_url r = None"
    by (simp add: example_defs yields_def extract_once_def read_downloader_def)
  have v3: "validate_request_headers env_third ''1000'' ''g'' ''e'' [''xhslink.com/a''] = None"
    "validate_request env_third ''xhslink.com/a'' = None"
    by (simp_all add: example_defs validate_request_headers_def validate_timestamp_def)
  have v0: "validate_request_headers env_all_none ''1000'' ''g'' ''e'' [''xhslink.com/a''] = None"
    "validate_request env_all_none ''xhslink.com/a'' = None"
    by (simp_all add: example_defs validate_request_headers_def validate_timestamp_def)
  have w3: "resolved (parse_video env_third ''xhslink.com/a'' ''1000'' ''g'' ''e'') 3 (JStr ''https://v/1.mp4'')
      \<and> resolved (parse env_third ''xhslink.com/a'') 3 (JStr ''https://v/1.mp4'')"
    using xiaohongshu_retry_first_usable_url [where k = 3 and v = "''http://v/1.mp4''"
          and r = "\<lparr>title = Some ''t'', video_url = Some ''http://v/1.mp4'',
                     cover_url = Some ''https://c/1.jpg'', the_downloader = Some d_ok\<rparr>"
          and xt = "''1000''" and xg = "''g''" and xe = "''e''", OF url3 ne loc3]
      a b v3
    by (simp add: convert_to_https_def)
  have w0: "resolved (parse_video env_all_none ''xhslink.com/a'' ''1000'' ''g'' ''e'') 5 JNull
      \<and> resolved (parse env_all_none ''xhslink.com/a'') 5 JNull"
    using xiaohongshu_retry_first_usable_url [where xt = "''1000''" and xg = "''g''" and xe = "''e''",
          OF url0 ne loc0]
      c v0
    by blast
  show ?thesis using w3 w0 by simp
qed

text \<open>
  C1 as it is worded speaks of a non-null URL. The loop tests truthiness (\<open>if video_url:\<close>):
  when the first extractor returns the empty string, which is not null, the loop goes on,
  five extractors are constructed, and the response carries the null of the last one.
\<close>

theorem xiaohongshu_retry_empty_string_counterexample:
  "yields env_empty_first xiaohongshu (Some ''xhslink.com/a'') 0
     \<lparr>title = Some ''t'', video_url = Some [], cover_url = None, the_downloader = Some d_empty\<rparr>
   \<and> snd (parse_video env_empty_first ''xhslink.com/a'' ''1000'' ''g'' ''e'') = 5
   \<and> data_field (fst (parse_video env_empty_first ''xhslink.com/a'' ''1000'' ''g'' ''e'')) ''video_url''
       = Some JNull
   \<and> snd (parse env_empty_first ''xhslink.com/a'') = 5"
  by (simp add: example_defs parse_defs)

text \<open>
  Claim C6, as the code has it. When the platform is recognised and extraction, after all
  its attempts, ends without an exception and without a usable video URL (and the audio
  accessor does not raise), the operation returns the success record: HTTP 200,
  \<open>retcode\<close> 200, \<open>succ\<close> true, the message of success, with \<open>data.video_url\<close> the unusable
  value itself (null, or the empty string). There is no separate failure response for an
  empty extraction, and the response is not a 5xx.
\<close>

theorem extraction_without_url_is_success_shaped:
  assumes "locate env (get_url env text) = (Some p, video_id, real_url)" and "p \<noteq> []"
    and "extract_media env p real_url = (Inr r, n)"
    and "\<not> truthy (video_url r)" and "audio_ok r"
  shows "(validate_request_headers env xt xg xe [text] = None \<and> truthy (get_url env text)
            \<longrightarrow> resolved (parse_video env text xt xg xe) n (jstr (video_url r)))
       \<and> (validate_request env text = None
            \<longrightarrow> resolved (parse env text) n (jstr (video_url r)))"
proof -
  have same: "convert_to_https (video_url r) = video_url r"
    using assms(4) by (cases "video_url r") (simp_all add: convert_to_https_def)
  show ?thesis
  proof (intro conjI impI)
    assume h: "validate_request_headers env xt xg xe [text] = None \<and> truthy (get_url env text)"
    then obtain link where link: "get_url env text = Some link" "link \<noteq> []"
      by (cases "get_url env text") auto
    from parse_video_resolved [OF _ link _ assms(2,3), of xt xg xe video_id] h assms(1,5) link same
    show "resolved (parse_video env text xt xg xe) n (jstr (video_url r))" by simp
  next
    assume "validate_request env text = None"
    from parse_resolved [OF this assms(1,2,3)] assms(5) same
    show "resolved (parse env text) n (jstr (video_url r))" by simp
  qed
qed

text \<open>The theorem at work on a Xiaohongshu link whose extractors find no video.\<close>

theorem extraction_without_url_witness:
  "resolved (parse_video env_empty_first ''xhslink.com/a'' ''1000'' ''g'' ''e'') 5 JNull
   \<and> resolved (parse env_empty_first ''xhslink.com/a'') 5 JNull"
proof -
  have loc: "locate env_empty_first (get_url env_empty_first ''xhslink.com/a'')
               = (Some xiaohongshu, Some ''vid'', Some ''xhslink.com/a'')"
    by (simp add: example_defs locate_def)
  have ex: "extract_media env_empty_first xiaohongshu (Some ''xhslink.com/a'')
              = (Inr \<lparr>title = None, video_url = None, cover_url = None, the_downloader = Some d_none\<rparr>, 5)"
    by (simp add: example_defs extract_media_def extract_once_def read_downloader_def)
  have ok: "audio_ok \<lparr>title = None, video_url = None, cover_url = None, the_downloader = Some d_none\<rparr>"
    by (simp add: audio_ok_def d_none_def)
  have v: "validate_request_headers env_empty_first ''1000'' ''g'' ''e'' [''xhslink.com/a''] = None
           \<and> truthy (get_url env_empty_first ''xhslink.com/a'')"
    "validate_request env_empty_first ''xhslink.com/a'' = None"
    by (simp_all add: example_defs validate_request_headers_def validate_timestamp_def)
  show ?thesis
    using extraction_without_url_is_success_shaped [OF loc xiaohongshu_not_empty ex _ ok,
        of "''1000''" "''g''" "''e''"] v
    by simp
qed

text \<open>
  C6 as it is worded expects a tagged failure, distinct from the success record. For a
  recognised platform whose five extractors all return \<open>None\<close>, both entry points return
  the success record, with every extracted field null.
\<close>

theorem extraction_failed_tag_counterexample:
  "locate env_all_none (get_url env_all_none ''xhslink.com/a'')
     = (Some xiaohongshu, Some ''vid'', Some ''xhslink.com/a'')
   \<and> extract_media env_all_none xiaohongshu (Some ''xhslink.com/a'')
     = (Inr \<lparr>title = None, video_url = None, cover_url = None, the_downloader = Some d_none\<rparr>, 5)
   \<and> parse_video env_all_none ''xhslink.com/a'' ''1000'' ''g'' ''e''
     = (JSONResponse 200 (make_response 200 msg_success
          (Some [(''video_id'', JStr ''vid''), (''platform'', JStr xiaohongshu), (''title'', JNull),
                 (''video_url'', JNull), (''cover_url'', JNull)]) None True), 5)
   \<and> parse env_all_none ''xhslink.com/a''
     = parse_video env_all_none ''xhslink.com/a'' ''1000'' ''g'' ''e''"
  by (simp add: example_defs catch_all_def parse_video_def parse_video_body_def parse_def parse_body_def
        validate_request_headers_def validate_timestamp_def locate_def extract_media_def
        extract_once_def read_downloader_def parse_success_def add_audio_url_def
        build_data_dict_def convert_to_https_def xiaohongshu_def bilibili_def)

text \<open>
  Claim C7. When the domain of the landing URL is not a key of \<open>DOMAIN_TO_NAME\<close>, the
  operation returns the unsupported-link error (HTTP 400) and no extractor is constructed:
  the count is zero, and the outcome is the same whatever the factory would have done.
  For \<open>parse_video\<close> the request has passed validation and a link was found in the text;
  for \<open>parse\<close> it has passed \<open>validate_request\<close>.
\<close>

theorem unsupported_platform_stops_before_extraction:
  assumes "locate env (get_url env text) = (None, video_id, real_url)"
  shows "(validate_request_headers env xt xg xe [text] = None \<and> truthy (get_url env text)
            \<longrightarrow> parse_video env text xt xg xe = (unsupported_link, 0)
              \<and> (\<forall>f. parse_video (env\<lparr>create_downloader := f\<rparr>) text xt xg xe = (unsupported_link, 0)))
       \<and> (validate_request env text = None
            \<longrightarrow> parse env text = (unsupported_link, 0)
              \<and> (\<forall>f. parse (env\<lparr>create_downloader := f\<rparr>) text = (unsupported_link, 0)))"
proof -
  have loc: "locate (env\<lparr>create_downloader := f\<rparr>) u = locate env u" for f u
    by (simp add: locate_def Let_def split: option.splits)
  have val: "validate_request_headers (env\<lparr>create_downloader := f\<rparr>) xt xg xe [text]
               = validate_request_headers env xt xg xe [text]" for f
    by (simp add: validate_request_headers_def Let_def split: option.splits)
  show ?thesis
    using assms
    by (auto simp: catch_all_def parse_video_def parse_video_body_def parse_def parse_body_def loc val
          unsupported_link_def split: option.splits)
qed

text \<open>The theorem at work on a link of an unknown domain.\<close>

theorem unsupported_platform_witness:
  "parse_video env_third ''youtu.be/x'' ''1000'' ''g'' ''e'' = (unsupported_link, 0)
   \<and> parse env_third ''youtu.be/x'' = (unsupported_link, 0)"
proof -
  have loc: "locate env_third (get_url env_third ''youtu.be/x'') = (None, Some ''vid'', Some ''youtu.be/x'')"
    by (simp add: example_defs locate_def)
  have v: "validate_request_headers env_third ''1000'' ''g'' ''e'' [''youtu.be/x''] = None
           \<and> truthy (get_url env_third ''youtu.be/x'')"
    "validate_request env_third ''youtu.be/x'' = None"
    by (simp_all add: example_defs validate_request_headers_def validate_timestamp_def)
  show ?thesis
    using unsupported_platform_stops_before_extraction [OF loc, of "''1000''" "''g''" "''e''"] v
    by simp
qed

section \<open>Properties: the materialize operation\<close>

lemma msg_fallback_not_success: "msg_download_fallback \<noteq> msg_success"
  by (simp add: msg_download_fallback_def msg_success_def)

lemma isinstance_IOError:
  "(isinstance e C_ChunkedEncodingError \<or> isinstance e C_IOError) = isinstance e C_IOError"
  by auto

lemma isinstance_RequestException:
  "(isinstance e C_RequestException \<or> isinstance e C_ConnectionError) = isinstance e C_RequestException"
  by auto

lemma save_chunks_exists:
  "os_path_exists w path \<Longrightarrow> os_path_exists (snd (save_chunks env path n cs w)) path"
  by (induction cs arbitrary: n w)
     (auto simp: os_path_exists_def file_write_def split: option.splits)

lemma save_chunks_other_files:
  "p \<noteq> path \<Longrightarrow> files (snd (save_chunks env path n cs w)) p = files w p"
  by (induction cs arbitrary: n w) (auto simp: file_write_def split: option.splits)

lemma save_video_exists:
  assumes "open_error env path = None"
  shows "os_path_exists (snd (save_video env path r w)) path"
proof -
  have "os_path_exists (file_open path w) path"
    by (simp add: os_path_exists_def file_open_def)
  from save_chunks_exists [OF this, of env 0 "body_chunks r"]
  show ?thesis using assms by (auto simp: save_video_def split: prod.splits option.splits)
qed

lemma save_video_completed_exists:
  assumes "save_video env path r w = (None, w')"
  shows "os_path_exists w' path"
proof (cases "open_error env path")
  case None
  from save_video_exists [OF this, of r w] assms show ?thesis by simp
next
  case (Some e)
  with assms show ?thesis by (simp add: save_video_def)
qed

lemma save_video_other_files:
  "p \<noteq> path \<Longrightarrow> files (snd (save_video env path r w)) p = files w p"
  using save_chunks_other_files [of p path env 0 "body_chunks r" "file_open path w"]
  by (auto simp: save_video_def file_open_def split: prod.splits option.splits)

lemma fetch_world: "snd (fetch env url h w) = w\<lparr>trace := trace w @ [HttpGet url h]\<rparr>"
  by (simp add: fetch_def Let_def split: sum.splits option.splits)

lemma fetch_files: "fetch env url h w = (x, w1) \<Longrightarrow> files w1 = files w"
  using fetch_world [of env url h w] by simp

lemma os_remove_absent:
  "os_remove path w = Inr w' \<Longrightarrow> \<not> os_path_exists w' path"
  by (auto simp: os_remove_def os_path_exists_def split: if_splits)

lemma os_remove_exists:
  "os_path_exists w path \<Longrightarrow> \<exists>w'. os_remove path w = Inr w'"
  by (simp add: os_remove_def)

text \<open>The three ways the block can end when no exception escapes it.\<close>

lemma download_and_save_connect_failure:
  assumes "fetch env url (request_headers url) w = (Inl e, w1)" and "isinstance e C_RequestException"
  shows "download_and_save env url path local w = (Inr (fell_back url), w1)"
  using assms by (simp add: download_and_save_def fell_back_def isinstance_RequestException)

lemma download_and_save_save_failure:
  assumes "fetch env url (request_headers url) w = (Inr r, w1)"
    and "save_video env path r w1 = (Some e, w2)" and "isinstance e C_IOError"
  shows "\<exists>w3. download_and_save env url path local w = (Inr (fell_back url), w3)
              \<and> \<not> os_path_exists w3 path
              \<and> (\<forall>p. p \<noteq> path \<longrightarrow> files w3 p = files w p)"
proof (cases "os_path_exists w2 path")
  case False
  have "files w2 p = files w p" if "p \<noteq> path" for p
    using save_video_other_files [OF that, of env r w1] assms(2) fetch_files [OF assms(1)] by simp
  then show ?thesis
    using assms False
    by (simp add: download_and_save_def fell_back_def isinstance_IOError del: isinstance.simps)
next
  case True
  then obtain w3 where w3: "os_remove path w2 = Inr w3" using os_remove_exists by blast
  have "files w3 p = files w p" if "p \<noteq> path" for p
    using save_video_other_files [OF that, of env r w1] assms(2) fetch_files [OF assms(1)] w3 that
    by (auto simp: os_remove_def split: if_splits)
  then show ?thesis
    using assms True w3 os_remove_absent [OF w3]
    by (simp add: download_and_save_def fell_back_def isinstance_IOError del: isinstance.simps)
qed

lemma download_and_save_cases:
  assumes "download_and_save env url path local w = (Inr resp, w')"
  shows "resp = fell_back url \<or> (resp = served local \<and> os_path_exists w' path)"
proof (cases "fetch env url (request_headers url) w")
  case (Pair x w1)
  show ?thesis
  proof (cases x)
    case (Inl e)
    with Pair assms show ?thesis
      by (auto simp: download_and_save_def fell_back_def split: if_splits)
  next
    case (Inr r)
    show ?thesis
    proof (cases "save_video env path r w1")
      case (Pair y w2)
      then show ?thesis
        using assms \<open>fetch env url (request_headers url) w = (x, w1)\<close> Inr
          save_video_completed_exists [of env path r w1 w2]
        by (cases y)
           (auto simp: download_and_save_def fell_back_def served_def
              split: if_splits sum.splits simp del: isinstance.simps)
    qed
  qed
qed

lemma download_video_server_side:
  assumes "validate_request_headers env xt xg xe [url] = None" and "\<not> legal_domain env url"
  shows "download_video env url vid xt xg xe w = catch_all (server_side_download env url vid w)"
  using assms by (simp add: download_video_def download_video_body_def)

lemma download_server_side:
  assumes "validate_request env url = None" and "\<not> legal_domain env url"
  shows "download env url vid w = catch_all (server_side_download env url vid w)"
  using assms by (simp add: download_def download_body_def)

lemma catch_all_Inr: "catch_all (Inr resp, s) = (resp, s)"
  by (simp add: catch_all_def)

lemma server_side_download_absent:
  assumes "\<not> os_path_exists w (video_path_of env vid)"
  shows "server_side_download env url vid w =
           download_and_save env url (video_path_of env vid) (download_url_of env vid) w"
  using assms by (simp add: server_side_download_def)

lemma server_side_download_present:
  assumes "os_path_exists w (video_path_of env vid)"
  shows "server_side_download env url vid w = (Inr (served (download_url_of env vid)), w)"
  using assms by (simp add: server_side_download_def served_def)


lemmas download_defs =
  catch_all_def download_video_def download_video_body_def download_def download_body_def
  validate_request_headers_def validate_timestamp_def legal_domain_def server_side_download_def
  video_path_of_def download_url_of_def os_path_join_def os_path_exists_def download_and_save_def
  fetch_def raise_for_status_def save_video_def file_open_def file_write_def os_remove_def
  request_headers_def make_response_def JSONResponse_def served_def fell_back_def Let_def

lemmas world_defs =
  example_env_def env_truncated_def env_complete_def env_offline_def env_forbidden_def
  env_disk_full_def truncated_def complete_def forbidden_def offline_def disk_def d_none_def



text \<open>
  Claim C3, as the code has it. A request for a domain that is not on the allow-list,
  whose file is not yet on disk, so that a download is attempted. If the download fails
  with an exception of a class the handlers catch, in connecting a \<open>RequestException\<close>
  (from \<open>session.get\<close> or \<open>raise_for_status\<close>), while saving an \<open>IOError\<close> (from \<open>open\<close>, a
  write or the stream), the operation answers HTTP 200 with \<open>retcode\<close> 200 and \<open>succ\<close>
  true, and \<open>download_url\<close> is the request's \<open>video_url\<close> unchanged.
\<close>

theorem failed_download_falls_back:
  assumes "\<not> legal_domain env url"
    and "\<not> os_path_exists w (video_path_of env vid)"
    and "(\<exists>e w1. fetch env url (request_headers url) w = (Inl e, w1) \<and> isinstance e C_RequestException)
       \<or> (\<exists>r w1 e w2. fetch env url (request_headers url) w = (Inr r, w1)
              \<and> save_video env (video_path_of env vid) r w1 = (Some e, w2) \<and> isinstance e C_IOError)"
  shows "(validate_request_headers env xt xg xe [url] = None
            \<longrightarrow> fst (download_video env url vid xt xg xe w)
                = JSONResponse 200 (make_response 200 msg_download_fallback
                    (Some [(''download_url'', JStr url)]) None True))
       \<and> (validate_request env url = None
            \<longrightarrow> fst (download env url vid w)
                = JSONResponse 200 (make_response 200 msg_download_fallback
                    (Some [(''download_url'', JStr url)]) None True))"
proof -
  have "\<exists>w'. download_and_save env url (video_path_of env vid) (download_url_of env vid) w
            = (Inr (fell_back url), w')"
    using assms(3)
  proof (elim disjE exE conjE)
    fix e w1
    assume "fetch env url (request_headers url) w = (Inl e, w1)" "isinstance e C_RequestException"
    from download_and_save_connect_failure [OF this] show ?thesis by blast
  next
    fix r w1 e w2
    assume "fetch env url (request_headers url) w = (Inr r, w1)"
      "save_video env (video_path_of env vid) r w1 = (Some e, w2)" "isinstance e C_IOError"
    from download_and_save_save_failure [OF this] show ?thesis by blast
  qed
  then obtain w' where "catch_all (server_side_download env url vid w) = (fell_back url, w')"
    by (auto simp: server_side_download_absent [OF assms(2)] catch_all_Inr)
  then show ?thesis
    using assms(1) by (simp add: download_video_server_side download_server_side fell_back_def)
qed

text \<open>
  The theorem at work: the connection fails; the second write fails; the host answers 403.
\<close>

theorem failed_download_falls_back_witness:
  "fst (download_video env_offline ''cdn.example/v.mp4'' ''new'' ''1000'' ''g'' ''e'' disk)
     = JSONResponse 200 (make_response 200 msg_download_fallback
         (Some [(''download_url'', JStr ''cdn.example/v.mp4'')]) None True)
   \<and> fst (download env_offline ''cdn.example/v.mp4'' ''new'' disk)
     = JSONResponse 200 (make_response 200 msg_download_fallback
         (Some [(''download_url'', JStr ''cdn.example/v.mp4'')]) None True)
   \<and> fst (download_video env_disk_full ''cdn.example/v.mp4'' ''new'' ''1000'' ''g'' ''e'' disk)
     = JSONResponse 200 (make_response 200 msg_download_fallback
         (Some [(''download_url'', JStr ''cdn.example/v.mp4'')]) None True)
   \<and> fst (download_video env_forbidden ''cdn.example/v.mp4'' ''new'' ''1000'' ''g'' ''e'' disk)
     = JSONResponse 200 (make_response 200 msg_download_fallback
         (Some [(''download_url'', JStr ''cdn.example/v.mp4'')]) None True)"
proof -
  have a: "\<not> legal_domain env_offline ''cdn.example/v.mp4''"
    "\<not> legal_domain env_disk_full ''cdn.example/v.mp4''"
    "\<not> legal_domain env_forbidden ''cdn.example/v.mp4''"
    by (simp_all add: world_defs legal_domain_def)
  have b: "\<not> os_path_exists disk (video_path_of env_offline ''new'')"
    "\<not> os_path_exists disk (video_path_of env_disk_full ''new'')"
    "\<not> os_path_exists disk (video_path_of env_forbidden ''new'')"
    by (simp_all add: world_defs video_path_of_def os_path_join_def os_path_exists_def)
  have f: "(\<exists>e w1. fetch env_forbidden ''cdn.example/v.mp4'' (request_headers ''cdn.example/v.mp4'') disk
                 = (Inl e, w1) \<and> isinstance e C_RequestException)
       \<or> (\<exists>r w1 e w2. fetch env_forbidden ''cdn.example/v.mp4'' (request_headers ''cdn.example/v.mp4'') disk
                 = (Inr r, w1)
              \<and> save_video env_forbidden (video_path_of env_forbidden ''new'') r w1 = (Some e, w2)
              \<and> isinstance e C_IOError)"
    by (rule disjI1) (simp add: world_defs fetch_def raise_for_status_def)
  have c: "(\<exists>e w1. fetch env_offline ''cdn.example/v.mp4'' (request_headers ''cdn.example/v.mp4'') disk
                 = (Inl e, w1) \<and> isinstance e C_RequestException)
       \<or> (\<exists>r w1 e w2. fetch env_offline ''cdn.example/v.mp4'' (request_headers ''cdn.example/v.mp4'') disk
                 = (Inr r, w1)
              \<and> save_video env_offline (video_path_of env_offline ''new'') r w1 = (Some e, w2)
              \<and> isinstance e C_IOError)"
    by (rule disjI1) (simp add: world_defs fetch_def)
  have d: "(\<exists>e w1. fetch env_disk_full ''cdn.example/v.mp4'' (request_headers ''cdn.example/v.mp4'') disk
                 = (Inl e, w1) \<and> isinstance e C_RequestException)
       \<or> (\<exists>r w1 e w2. fetch env_disk_full ''cdn.example/v.mp4'' (request_headers ''cdn.example/v.mp4'') disk
                 = (Inr r, w1)
              \<and> save_video env_disk_full (video_path_of env_disk_full ''new'') r w1 = (Some e, w2)
              \<and> isinstance e C_IOError)"
    by (rule disjI2)
       (simp add: world_defs fetch_def raise_for_status_def save_video_def video_path_of_def
          os_path_join_def)
  have v: "validate_request_headers env_offline ''1000'' ''g'' ''e'' [''cdn.example/v.mp4''] = None"
    "validate_request env_offline ''cdn.example/v.mp4'' = None"
    "validate_request_headers env_disk_full ''1000'' ''g'' ''e'' [''cdn.example/v.mp4''] = None"
    "validate_request_headers env_forbidden ''1000'' ''g'' ''e'' [''cdn.example/v.mp4''] = None"
    by (simp_all add: world_defs validate_request_headers_def validate_timestamp_def)
  show ?thesis
    using failed_download_falls_back [OF a(1) b(1) c, of "''1000''" "''g''" "''e''"]
      failed_download_falls_back [OF a(2) b(2) d, of "''1000''" "''g''" "''e''"]
      failed_download_falls_back [OF a(3) b(3) f, of "''1000''" "''g''" "''e''"] v
    by simp
qed

text \<open>
  C3 as it is worded speaks of every failure in connecting or saving. The fallback is
  returned by the handlers \<open>except (RequestException, ConnectionError)\<close> and
  \<open>except (ChunkedEncodingError, IOError)\<close> only. For a \<open>video_id\<close> with a NUL byte the file
  is not on disk, the fetch succeeds, and \<open>open\<close> raises \<open>ValueError\<close>, which is no
  \<open>IOError\<close>: the save has failed, and the operation answers HTTP 500.
\<close>

theorem nul_byte_video_id_counterexample:
  "\<not> legal_domain env_nul_path ''cdn.example/v.mp4''
   \<and> \<not> os_path_exists disk (video_path_of env_nul_path [CHR ''a'', CHR 0x00])
   \<and> open_error env_nul_path (video_path_of env_nul_path [CHR ''a'', CHR 0x00]) = Some ValueError
   \<and> \<not> isinstance ValueError C_IOError
   \<and> fst (download_video env_nul_path ''cdn.example/v.mp4'' [CHR ''a'', CHR 0x00] ''1000'' ''g'' ''e'' disk)
       = JSONResponse 500 (make_response 500 msg_busy None None False)
   \<and> fst (download env_nul_path ''cdn.example/v.mp4'' [CHR ''a'', CHR 0x00] disk)
       = JSONResponse 500 (make_response 500 msg_busy None None False)
   \<and> trace (snd (download env_nul_path ''cdn.example/v.mp4'' [CHR ''a'', CHR 0x00] disk))
       = [HttpGet ''cdn.example/v.mp4'' (request_headers ''cdn.example/v.mp4'')]"
  by (simp add: env_nul_path_def world_defs download_defs)

text \<open>
  Claim C4. When the domain of \<open>video_url\<close> is on the allow-list, the operation returns
  \<open>video_url\<close> unchanged as \<open>download_url\<close> and the world is as before: the trace has no
  new effect, so there was no HTTP fetch and no file was opened, written or removed.
\<close>

theorem legal_domain_passes_through:
  assumes "legal_domain env url"
  shows "(validate_request_headers env xt xg xe [url] = None
            \<longrightarrow> download_video env url vid xt xg xe w
                = (JSONResponse 200 (make_response 200 msg_success
                     (Some [(''download_url'', JStr url)]) None True), w))
       \<and> (validate_request env url = None
            \<longrightarrow> download env url vid w
                = (JSONResponse 200 (make_response 200 msg_success
                     (Some [(''download_url'', JStr url)]) None True), w))"
  using assms
  by (simp add: download_video_def download_video_body_def download_def download_body_def
        catch_all_def)

text \<open>
  The theorem at work on a link of the allow-listed domain.
\<close>

theorem legal_domain_passes_through_witness:
  "download_video env_complete ''ok.example/v.mp4'' ''new'' ''1000'' ''g'' ''e'' disk
     = (JSONResponse 200 (make_response 200 msg_success
          (Some [(''download_url'', JStr ''ok.example/v.mp4'')]) None True), disk)
   \<and> download env_complete ''ok.example/v.mp4'' ''new'' disk
     = (JSONResponse 200 (make_response 200 msg_success
          (Some [(''download_url'', JStr ''ok.example/v.mp4'')]) None True), disk)"
proof -
  have a: "legal_domain env_complete ''ok.example/v.mp4''"
    by (simp add: world_defs legal_domain_def)
  have v: "validate_request_headers env_complete ''1000'' ''g'' ''e'' [''ok.example/v.mp4''] = None"
    "validate_request env_complete ''ok.example/v.mp4'' = None"
    by (simp_all add: world_defs validate_request_headers_def validate_timestamp_def)
  show ?thesis
    using legal_domain_passes_through [OF a, of "''1000''" "''g''" "''e''" "''new''" disk] v
    by simp
qed

lemma served_not_fell_back: "served u \<noteq> fell_back v"
  using msg_fallback_not_success
  by (auto simp: served_def fell_back_def JSONResponse_def make_response_def)

lemma served_not_busy: "served u \<noteq> JSONResponse 500 (make_response 500 msg_busy None None False)"
  by (simp add: served_def JSONResponse_def make_response_def)

lemma server_side_download_served_exists:
  assumes "catch_all (server_side_download env url vid w) = (served (download_url_of env vid), w1)"
  shows "os_path_exists w1 (video_path_of env vid)"
proof (cases "os_path_exists w (video_path_of env vid)")
  case True
  with assms show ?thesis
    by (simp add: server_side_download_present catch_all_Inr)
next
  case False
  obtain x w' where out: "download_and_save env url (video_path_of env vid) (download_url_of env vid) w = (x, w')"
    by (cases "download_and_save env url (video_path_of env vid) (download_url_of env vid) w")
  show ?thesis
  proof (cases x)
    case (Inl e)
    with out assms False show ?thesis
      using served_not_busy [of "download_url_of env vid"]
      by (simp add: server_side_download_absent catch_all_def)
  next
    case (Inr resp)
    with out assms False have eq: "resp = served (download_url_of env vid)" "w' = w1"
      by (simp_all add: server_side_download_absent catch_all_def)
    from out Inr have "download_and_save env url (video_path_of env vid) (download_url_of env vid) w
        = (Inr resp, w')" by simp
    from download_and_save_cases [OF this]
    have "resp = fell_back url \<or> os_path_exists w' (video_path_of env vid)" by blast
    moreover have "resp \<noteq> fell_back url" unfolding eq(1) by (rule served_not_fell_back)
    ultimately show ?thesis using eq(2) by simp
  qed
qed

lemma video_path_of_config:
  "SAVE_VIDEO_PATH env' = SAVE_VIDEO_PATH env \<Longrightarrow> video_path_of env' vid = video_path_of env vid"
  by (simp add: video_path_of_def)

lemma download_url_of_config:
  "DOMAIN env' = DOMAIN env \<Longrightarrow> download_url_of env' vid = download_url_of env vid"
  by (simp add: download_url_of_def)

text \<open>
  Claim C5, as the code has it. For a request whose domain is not on the allow-list:
  when the target file of \<open>video_id\<close> is on disk, the operation returns the local URL
  \<open>{domain}/static/videos/{video_id}.mp4\<close> and leaves the world as it was (no fetch, no
  write). And of two successive calls with the same \<open>video_id\<close>, both for domains not on
  the allow-list and under the same configuration, if the first returned the success
  response with the local URL, the second returns the same response and changes nothing,
  whatever the network does then.
\<close>

theorem present_file_is_reused:
  assumes "\<not> legal_domain env url"
  shows "(os_path_exists w (video_path_of env vid) \<longrightarrow>
            (validate_request_headers env xt xg xe [url] = None
               \<longrightarrow> download_video env url vid xt xg xe w = (served (download_url_of env vid), w))
          \<and> (validate_request env url = None
               \<longrightarrow> download env url vid w = (served (download_url_of env vid), w)))
       \<and> (\<not> legal_domain env' url' \<and> SAVE_VIDEO_PATH env' = SAVE_VIDEO_PATH env \<and> DOMAIN env' = DOMAIN env \<longrightarrow>
            (validate_request_headers env xt xg xe [url] = None
              \<and> download_video env url vid xt xg xe w = (served (download_url_of env vid), w1)
              \<and> validate_request_headers env' xt' xg' xe' [url'] = None
               \<longrightarrow> download_video env' url' vid xt' xg' xe' w1 = (served (download_url_of env vid), w1))
          \<and> (validate_request env url = None
              \<and> download env url vid w = (served (download_url_of env vid), w1)
              \<and> validate_request env' url' = None
               \<longrightarrow> download env' url' vid w1 = (served (download_url_of env vid), w1)))"
proof (intro conjI impI)
  assume "os_path_exists w (video_path_of env vid)"
  then have *: "catch_all (server_side_download env url vid w) = (served (download_url_of env vid), w)"
    by (simp add: server_side_download_present catch_all_Inr)
  {
    assume "validate_request_headers env xt xg xe [url] = None"
    then show "download_video env url vid xt xg xe w = (served (download_url_of env vid), w)"
      using assms * by (simp add: download_video_server_side)
  }
  {
    assume "validate_request env url = None"
    then show "download env url vid w = (served (download_url_of env vid), w)"
      using assms * by (simp add: download_server_side)
  }
next
  assume cfg: "\<not> legal_domain env' url' \<and> SAVE_VIDEO_PATH env' = SAVE_VIDEO_PATH env \<and> DOMAIN env' = DOMAIN env"
  have again: "catch_all (server_side_download env' url' vid w1) = (served (download_url_of env vid), w1)"
    if "catch_all (server_side_download env url vid w) = (served (download_url_of env vid), w1)"
  proof -
    have same: "video_path_of env' vid = video_path_of env vid"
      "download_url_of env' vid = download_url_of env vid"
      using cfg video_path_of_config [of env' env vid] download_url_of_config [of env' env vid]
      by simp_all
    from server_side_download_served_exists [OF that]
    have "os_path_exists w1 (video_path_of env' vid)"
      by (simp only: same)
    from server_side_download_present [OF this, of url'] show ?thesis
      by (simp only: same catch_all_Inr)
  qed
  {
    assume "validate_request_headers env xt xg xe [url] = None
              \<and> download_video env url vid xt xg xe w = (served (download_url_of env vid), w1)
              \<and> validate_request_headers env' xt' xg' xe' [url'] = None"
    then have h: "validate_request_headers env xt xg xe [url] = None"
      "download_video env url vid xt xg xe w = (served (download_url_of env vid), w1)"
      "validate_request_headers env' xt' xg' xe' [url'] = None" by simp_all
    have "catch_all (server_side_download env url vid w) = (served (download_url_of env vid), w1)"
      using h(2) by (simp only: download_video_server_side [OF h(1) assms])
    from again [OF this]
    show "download_video env' url' vid xt' xg' xe' w1 = (served (download_url_of env vid), w1)"
      using cfg by (simp add: download_video_server_side [OF h(3)])
  }
  {
    assume "validate_request env url = None
              \<and> download env url vid w = (served (download_url_of env vid), w1)
              \<and> validate_request env' url' = None"
    then have h: "validate_request env url = None"
      "download env url vid w = (served (download_url_of env vid), w1)"
      "validate_request env' url' = None" by simp_all
    have "catch_all (server_side_download env url vid w) = (served (download_url_of env vid), w1)"
      using h(2) by (simp only: download_server_side [OF h(1) assms])
    from again [OF this]
    show "download env' url' vid w1 = (served (download_url_of env vid), w1)"
      using cfg by (simp add: download_server_side [OF h(3)])
  }
qed

text \<open>
  The theorem at work: a file already on disk is served; and a completed download is
  served again when the network has gone.
\<close>

theorem present_file_is_reused_witness:
  "download_video env_offline ''cdn.example/v.mp4'' ''old'' ''1000'' ''g'' ''e'' disk
     = (served ''https://parser.example/static/videos/old.mp4'', disk)
   \<and> download env_offline ''cdn.example/v.mp4'' ''old'' disk
     = (served ''https://parser.example/static/videos/old.mp4'', disk)
   \<and> fst (download_video env_complete ''cdn.example/v.mp4'' ''new'' ''1000'' ''g'' ''e'' disk)
     = served ''https://parser.example/static/videos/new.mp4''
   \<and> download_video env_offline ''cdn.example/w.mp4'' ''new'' ''1000'' ''g'' ''e''
       (snd (download_video env_complete ''cdn.example/v.mp4'' ''new'' ''1000'' ''g'' ''e'' disk))
     = (served ''https://parser.example/static/videos/new.mp4'',
        snd (download_video env_complete ''cdn.example/v.mp4'' ''new'' ''1000'' ''g'' ''e'' disk))"
proof -
  have a: "\<not> legal_domain env_offline ''cdn.example/v.mp4''"
    "\<not> legal_domain env_complete ''cdn.example/v.mp4''"
    "\<not> legal_domain env_offline ''cdn.example/w.mp4''"
    by (simp_all add: world_defs legal_domain_def)
  have b: "os_path_exists disk (video_path_of env_offline ''old'')"
    by (simp add: world_defs video_path_of_def os_path_join_def os_path_exists_def)
  have v: "validate_request_headers env_offline ''1000'' ''g'' ''e'' [''cdn.example/v.mp4''] = None"
    "validate_request env_offline ''cdn.example/v.mp4'' = None"
    "validate_request_headers env_complete ''1000'' ''g'' ''e'' [''cdn.example/v.mp4''] = None"
    "validate_request_headers env_offline ''1000'' ''g'' ''e'' [''cdn.example/w.mp4''] = None"
    by (simp_all add: world_defs validate_request_headers_def validate_timestamp_def)
  have u: "download_url_of env_offline ''old'' = ''https://parser.example/static/videos/old.mp4''"
    "download_url_of env_complete ''new'' = ''https://parser.example/static/videos/new.mp4''"
    by (simp_all add: world_defs download_url_of_def)
  have c: "SAVE_VIDEO_PATH env_offline = SAVE_VIDEO_PATH env_complete"
    "DOMAIN env_offline = DOMAIN env_complete"
    by (simp_all add: world_defs)
  have first: "fst (download_video env_complete ''cdn.example/v.mp4'' ''new'' ''1000'' ''g'' ''e'' disk)
      = served (download_url_of env_complete ''new'')"
    by (simp add: world_defs download_defs)
  then have d: "download_video env_complete ''cdn.example/v.mp4'' ''new'' ''1000'' ''g'' ''e'' disk
      = (served (download_url_of env_complete ''new''),
         snd (download_video env_complete ''cdn.example/v.mp4'' ''new'' ''1000'' ''g'' ''e'' disk))"
    by (metis prod.collapse)
  have once: "download_video env_offline ''cdn.example/v.mp4'' ''old'' ''1000'' ''g'' ''e'' disk
        = (served (download_url_of env_offline ''old''), disk)
      \<and> download env_offline ''cdn.example/v.mp4'' ''old'' disk
        = (served (download_url_of env_offline ''old''), disk)"
    using present_file_is_reused [OF a(1), where w = disk and vid = "''old''" and xt = "''1000''"
        and xg = "''g''" and xe = "''e''"] b v
    by blast
  have twice: "download_video env_offline ''cdn.example/w.mp4'' ''new'' ''1000'' ''g'' ''e''
       (snd (download_video env_complete ''cdn.example/v.mp4'' ''new'' ''1000'' ''g'' ''e'' disk))
     = (served (download_url_of env_complete ''new''),
        snd (download_video env_complete ''cdn.example/v.mp4'' ''new'' ''1000'' ''g'' ''e'' disk))"
    using present_file_is_reused [OF a(2), where env' = env_offline and url' = "''cdn.example/w.mp4''"
        and w = disk and vid = "''new''" and xt = "''1000''" and xg = "''g''" and xe = "''e''"
        and xt' = "''1000''" and xg' = "''g''" and xe' = "''e''"
        and ?w1.0 = "snd (download_video env_complete ''cdn.example/v.mp4'' ''new'' ''1000'' ''g'' ''e'' disk)"]
      a(3) c v d
    by blast
  show ?thesis using once twice first u by simp
qed

text \<open>
  C5 as it is worded speaks of every \<open>video_id\<close> whose file is on disk. The allow-list
  test comes first: for a link of an allow-listed domain the operation returns the remote
  link, not the local URL, although the file of that \<open>video_id\<close> is on disk.
\<close>

theorem legal_domain_with_present_file_counterexample:
  "os_path_exists disk (video_path_of env_offline ''old'')
   \<and> download_url_of env_offline ''old'' = ''https://parser.example/static/videos/old.mp4''
   \<and> download_video env_offline ''ok.example/v.mp4'' ''old'' ''1000'' ''g'' ''e'' disk
       = (served ''ok.example/v.mp4'', disk)
   \<and> download env_offline ''ok.example/v.mp4'' ''old'' disk = (served ''ok.example/v.mp4'', disk)
   \<and> data_field (served ''ok.example/v.mp4'') ''download_url''
       \<noteq> Some (JStr ''https://parser.example/static/videos/old.mp4'')"
  by (simp add: world_defs download_defs data_field_def)

lemma server_side_download_cases:
  assumes "server_side_download env url vid w = (Inr resp, w')"
  shows "resp = fell_back url \<or> resp = served (download_url_of env vid)"
proof (cases "os_path_exists w (video_path_of env vid)")
  case True
  with assms show ?thesis by (simp add: server_side_download_present)
next
  case False
  with assms download_and_save_cases [of env url "video_path_of env vid" "download_url_of env vid" w resp w']
  show ?thesis by (auto simp: server_side_download_absent)
qed

lemma success_shaped_served: "success_shaped url (served u)"
  by (simp add: success_shaped_def served_def JSONResponse_def make_response_def data_field_def)

lemma success_shaped_fell_back: "success_shaped url (fell_back url)"
  by (simp add: success_shaped_def fell_back_def JSONResponse_def make_response_def data_field_def)

text \<open>
  Claim C10. For a request that passes validation, every response returned from inside
  the \<open>try\<close> block (every return other than that of the \<open>except Exception\<close> handler) has
  HTTP status 200, \<open>retcode\<close> 200, \<open>succ\<close> true and a string as \<open>data.download_url\<close>. Both
  failure paths of the download, in connecting and in saving, return the fallback
  response, which agrees with a success response in status, \<open>retcode\<close> and \<open>succ\<close> and
  differs from it in \<open>retdesc\<close>; its \<open>download_url\<close> is the request's \<open>video_url\<close>.
\<close>

theorem materialize_returns_are_success_shaped:
  "(validate_request_headers env xt xg xe [url] = None
      \<and> download_video_body env url vid xt xg xe w = (Inr resp, w') \<longrightarrow> success_shaped url resp)
   \<and> (validate_request env url = None
      \<and> download_body env url vid w = (Inr resp, w') \<longrightarrow> success_shaped url resp)
   \<and> (\<not> legal_domain env url \<and> \<not> os_path_exists w (video_path_of env vid)
      \<and> ((\<exists>e w1. fetch env url (request_headers url) w = (Inl e, w1) \<and> isinstance e C_RequestException)
         \<or> (\<exists>r w1 e w2. fetch env url (request_headers url) w = (Inr r, w1)
              \<and> save_video env (video_path_of env vid) r w1 = (Some e, w2) \<and> isinstance e C_IOError))
      \<longrightarrow> (validate_request_headers env xt xg xe [url] = None
             \<longrightarrow> fst (download_video_body env url vid xt xg xe w) = Inr (fell_back url))
         \<and> (validate_request env url = None
             \<longrightarrow> fst (download_body env url vid w) = Inr (fell_back url)))
   \<and> status_code (fell_back url) = status_code (served u)
   \<and> retcode (content (fell_back url)) = retcode (content (served u))
   \<and> succ (content (fell_back url)) = succ (content (served u))
   \<and> retdesc (content (fell_back url)) \<noteq> retdesc (content (served u))"
proof (intro conjI impI)
  assume "validate_request_headers env xt xg xe [url] = None
      \<and> download_video_body env url vid xt xg xe w = (Inr resp, w')"
  then show "success_shaped url resp"
    using server_side_download_cases [of env url vid w resp w']
      success_shaped_served [of url] success_shaped_fell_back [of url]
    by (auto simp: download_video_body_def served_def [symmetric] split: if_splits)
next
  assume "validate_request env url = None \<and> download_body env url vid w = (Inr resp, w')"
  then show "success_shaped url resp"
    using server_side_download_cases [of env url vid w resp w']
      success_shaped_served [of url] success_shaped_fell_back [of url]
    by (auto simp: download_body_def served_def [symmetric] split: if_splits)
next
  assume h: "\<not> legal_domain env url \<and> \<not> os_path_exists w (video_path_of env vid)
      \<and> ((\<exists>e w1. fetch env url (request_headers url) w = (Inl e, w1) \<and> isinstance e C_RequestException)
         \<or> (\<exists>r w1 e w2. fetch env url (request_headers url) w = (Inr r, w1)
              \<and> save_video env (video_path_of env vid) r w1 = (Some e, w2) \<and> isinstance e C_IOError))"
  then have "\<exists>w'. download_and_save env url (video_path_of env vid) (download_url_of env vid) w
            = (Inr (fell_back url), w')"
    using download_and_save_connect_failure [of env url w _ _ "video_path_of env vid" "download_url_of env vid"]
      download_and_save_save_failure [of env url w _ _ "video_path_of env vid" _ _ "download_url_of env vid"]
    by blast
  then have *: "fst (server_side_download env url vid w) = Inr (fell_back url)"
    using h by (auto simp: server_side_download_absent)
  {
    assume "validate_request_headers env xt xg xe [url] = None"
    then show "fst (download_video_body env url vid xt xg xe w) = Inr (fell_back url)"
      using h * by (simp add: download_video_body_def)
  }
  {
    assume "validate_request env url = None"
    then show "fst (download_body env url vid w) = Inr (fell_back url)"
      using h * by (simp add: download_body_def)
  }
qed (simp_all add: fell_back_def served_def JSONResponse_def make_response_def msg_fallback_not_success)

text \<open>
  The theorem at work: a failed connection and a broken stream.
\<close>

theorem materialize_success_shaped_witness:
  "success_shaped ''cdn.example/v.mp4''
     (fst (download_video env_offline ''cdn.example/v.mp4'' ''new'' ''1000'' ''g'' ''e'' disk))
   \<and> success_shaped ''cdn.example/v.mp4''
     (fst (download env_truncated ''cdn.example/v.mp4'' ''new'' disk))
   \<and> fst (download_video_body env_truncated ''cdn.example/v.mp4'' ''new'' ''1000'' ''g'' ''e'' disk)
      = Inr (fell_back ''cdn.example/v.mp4'')"
proof -
  have v: "validate_request_headers env_offline ''1000'' ''g'' ''e'' [''cdn.example/v.mp4''] = None"
    "validate_request env_truncated ''cdn.example/v.mp4'' = None"
    "validate_request_headers env_truncated ''1000'' ''g'' ''e'' [''cdn.example/v.mp4''] = None"
    by (simp_all add: world_defs validate_request_headers_def validate_timestamp_def)
  have b1: "download_video_body env_offline ''cdn.example/v.mp4'' ''new'' ''1000'' ''g'' ''e'' disk
      = (Inr (fst (download_video env_offline ''cdn.example/v.mp4'' ''new'' ''1000'' ''g'' ''e'' disk)),
         snd (download_video env_offline ''cdn.example/v.mp4'' ''new'' ''1000'' ''g'' ''e'' disk))"
    by (simp add: world_defs download_defs)
  have b2: "download_body env_truncated ''cdn.example/v.mp4'' ''new'' disk
      = (Inr (fst (download env_truncated ''cdn.example/v.mp4'' ''new'' disk)),
         snd (download env_truncated ''cdn.example/v.mp4'' ''new'' disk))"
    by (simp add: world_defs download_defs)
  have c: "\<not> legal_domain env_truncated ''cdn.example/v.mp4''
      \<and> \<not> os_path_exists disk (video_path_of env_truncated ''new'')
      \<and> ((\<exists>e w1. fetch env_truncated ''cdn.example/v.mp4'' (request_headers ''cdn.example/v.mp4'') disk
                 = (Inl e, w1) \<and> isinstance e C_RequestException)
         \<or> (\<exists>r w1 e w2. fetch env_truncated ''cdn.example/v.mp4'' (request_headers ''cdn.example/v.mp4'') disk
                 = (Inr r, w1)
              \<and> save_video env_truncated (video_path_of env_truncated ''new'') r w1 = (Some e, w2)
              \<and> isinstance e C_IOError))"
    by (simp add: world_defs legal_domain_def video_path_of_def os_path_join_def os_path_exists_def
          fetch_def raise_for_status_def save_video_def file_open_def file_write_def)
  have 1: "success_shaped ''cdn.example/v.mp4''
     (fst (download_video env_offline ''cdn.example/v.mp4'' ''new'' ''1000'' ''g'' ''e'' disk))"
    using materialize_returns_are_success_shaped [where env = env_offline and xt = "''1000''"
        and xg = "''g''" and xe = "''e''" and url = "''cdn.example/v.mp4''" and vid = "''new''"
        and w = disk
        and resp = "fst (download_video env_offline ''cdn.example/v.mp4'' ''new'' ''1000'' ''g'' ''e'' disk)"
        and w' = "snd (download_video env_offline ''cdn.example/v.mp4'' ''new'' ''1000'' ''g'' ''e'' disk)"]
      v(1) b1
    by blast
  have 2: "success_shaped ''cdn.example/v.mp4''
     (fst (download env_truncated ''cdn.example/v.mp4'' ''new'' disk))"
    using materialize_returns_are_success_shaped [where env = env_truncated
        and url = "''cdn.example/v.mp4''" and vid = "''new''" and w = disk
        and resp = "fst (download env_truncated ''cdn.example/v.mp4'' ''new'' disk)"
        and w' = "snd (download env_truncated ''cdn.example/v.mp4'' ''new'' disk)"]
      v(2) b2
    by blast
  have 3: "fst (download_video_body env_truncated ''cdn.example/v.mp4'' ''new'' ''1000'' ''g'' ''e'' disk)
      = Inr (fell_back ''cdn.example/v.mp4'')"
    using materialize_returns_are_success_shaped [where env = env_truncated and xt = "''1000''"
        and xg = "''g''" and xe = "''e''" and url = "''cdn.example/v.mp4''" and vid = "''new''"
        and w = disk]
      v(3) c
    by blast
  show ?thesis using 1 2 3 by simp
qed

section \<open>Properties: the merge operation\<close>

lemma no_ffmpeg_not_merge_failed: "msg_no_ffmpeg \<noteq> msg_merge_failed @ err"
  by (simp add: msg_no_ffmpeg_def msg_merge_failed_def)

lemma merge_try_tool_raises:
  assumes "subprocess_run env (ffmpeg_cmd v a out) (files w) = Inl e"
  shows "merge_try env v a out w = (Inl e, w)"
    and "client_merge_try env v a out w = (Inl e, print msg_merging w)"
  using assms by (simp_all add: merge_try_def client_merge_try_def run_subprocess_def print_def)

lemma merge_try_nonzero:
  assumes "subprocess_run env (ffmpeg_cmd v a out) (files w) = Inr (result, fs)"
    and "returncode result \<noteq> 0"
  shows "merge_try env v a out w =
           (Inr (False, msg_merge_failed @ stderr result),
            w\<lparr>files := fs, trace := trace w @ [Subprocess (ffmpeg_cmd v a out)]\<rparr>)"
    and "client_merge_try env v a out w =
           (Inr False,
            print (msg_merge_failed @ stderr result)
              ((print msg_merging w)\<lparr>files := fs,
                 trace := trace (print msg_merging w) @ [Subprocess (ffmpeg_cmd v a out)]\<rparr>))"
  using assms by (simp_all add: merge_try_def client_merge_try_def run_subprocess_def print_def)

lemma merge_try_zero:
  assumes "subprocess_run env (ffmpeg_cmd v a out) (files w) = Inr (result, fs)"
    and "returncode result = 0"
    and "merge_job v a out w" and "inputs_kept v a (files w) fs"
  shows "\<exists>w'. merge_try env v a out w = (Inr (True, msg_merge_ok), w')
              \<and> files w' = fs(v := None, a := None)"
    and "\<exists>w'. client_merge_try env v a out w = (Inr True, w')
              \<and> files w' = fs(v := None, a := None)"
  using assms
  by (auto simp: merge_try_def client_merge_try_def run_subprocess_def print_def os_remove_def
        os_path_exists_def merge_job_def inputs_kept_def)

lemma merge_video_audio_cases:
  "merge_video_audio env v a out w =
     (case merge_try env v a out w of
        (Inl e, w') \<Rightarrow> if e = FileNotFoundError then (Inr (False, msg_no_ffmpeg), w') else (Inl e, w')
      | (Inr r, w') \<Rightarrow> (Inr r, w'))"
  by (simp add: merge_video_audio_def split: prod.splits sum.splits)

lemma client_merge_video_audio_cases:
  "client_merge_video_audio env v a out w =
     (case client_merge_try env v a out w of
        (Inl e, w') \<Rightarrow>
          if e = FileNotFoundError
          then (Inr False, print msg_install_ffmpeg (print msg_warn_no_ffmpeg w'))
          else (Inl e, w')
      | (Inr r, w') \<Rightarrow> (Inr r, w'))"
  by (simp add: client_merge_video_audio_def split: prod.splits sum.splits)

lemma files_print [simp]: "files (print s w) = files w"
  by (simp add: print_def)

text \<open>Whatever the outcome other than success, the inputs are as the transcoder left them.\<close>

lemma merge_failure_keeps_inputs:
  assumes job: "merge_job v a out w"
    and tool: "\<forall>result fs. subprocess_run env (ffmpeg_cmd v a out) (files w) = Inr (result, fs)
                 \<longrightarrow> inputs_kept v a (files w) fs"
  shows "merge_video_audio env v a out w = (r, w') \<and> r \<noteq> Inr (True, msg_merge_ok)
           \<longrightarrow> inputs_kept v a (files w) (files w')"
    and "client_merge_video_audio env v a out w = (r', w'') \<and> r' \<noteq> Inr True
           \<longrightarrow> inputs_kept v a (files w) (files w'')"
proof -
  show "merge_video_audio env v a out w = (r, w') \<and> r \<noteq> Inr (True, msg_merge_ok)
           \<longrightarrow> inputs_kept v a (files w) (files w')"
  proof (cases "subprocess_run env (ffmpeg_cmd v a out) (files w)")
    case (Inl e)
    from merge_try_tool_raises(1) [OF this] show ?thesis
      by (auto simp: merge_video_audio_cases inputs_kept_def split: if_splits)
  next
    case (Inr p)
    obtain result fs where p: "p = (result, fs)" by (cases p)
    with Inr tool have kept: "inputs_kept v a (files w) fs" by blast
    show ?thesis
    proof (cases "returncode result = 0")
      case True
      from merge_try_zero(1) [OF Inr [unfolded p] True job kept] show ?thesis
        by (auto simp: merge_video_audio_cases)
    next
      case False
      from merge_try_nonzero(1) [OF Inr [unfolded p] False] kept show ?thesis
        by (auto simp: merge_video_audio_cases)
    qed
  qed
  show "client_merge_video_audio env v a out w = (r', w'') \<and> r' \<noteq> Inr True
           \<longrightarrow> inputs_kept v a (files w) (files w'')"
  proof (cases "subprocess_run env (ffmpeg_cmd v a out) (files w)")
    case (Inl e)
    from merge_try_tool_raises(2) [OF this] show ?thesis
      by (auto simp: client_merge_video_audio_cases inputs_kept_def split: if_splits)
  next
    case (Inr p)
    obtain result fs where p: "p = (result, fs)" by (cases p)
    with Inr tool have kept: "inputs_kept v a (files w) fs" by blast
    show ?thesis
    proof (cases "returncode result = 0")
      case True
      from merge_try_zero(2) [OF Inr [unfolded p] True job kept] show ?thesis
        by (auto simp: client_merge_video_audio_cases)
    next
      case False
      from merge_try_nonzero(2) [OF Inr [unfolded p] False] kept show ?thesis
        by (auto simp: client_merge_video_audio_cases)
    qed
  qed
qed

text \<open>
  Claim C8, as the code has it. The job has two different input files that exist and an
  output path that is neither; the transcoder, when it runs, leaves the inputs in place
  and, when it exits with 0, has written the output. Then, for the method of
  \<open>VideoClient\<close> and for the function of the test client:
  \<^item> when the transcoder exits with 0, the operation reports success, the output file
    exists and both inputs are gone;
  \<^item> when the transcoder is not installed, nothing on disk changes; the method returns
    \<open>False\<close> with a message of its own, different from every message of a non-zero exit,
    while the function of the test client returns a bare \<open>False\<close> and tells the case only
    in what it prints;
  \<^item> whenever the outcome is not success, both inputs are on disk as before.
\<close>

theorem merge_deletes_inputs_only_on_success:
  assumes "merge_job v a out w"
    and "\<forall>result fs. subprocess_run env (ffmpeg_cmd v a out) (files w) = Inr (result, fs)
           \<longrightarrow> inputs_kept v a (files w) fs \<and> (returncode result = 0 \<longrightarrow> fs out \<noteq> None)"
  shows "(\<forall>result fs. subprocess_run env (ffmpeg_cmd v a out) (files w) = Inr (result, fs)
            \<and> returncode result = 0 \<longrightarrow>
            (\<exists>w'. merge_video_audio env v a out w = (Inr (True, msg_merge_ok), w')
                 \<and> os_path_exists w' out \<and> \<not> os_path_exists w' v \<and> \<not> os_path_exists w' a)
          \<and> (\<exists>w'. client_merge_video_audio env v a out w = (Inr True, w')
                 \<and> os_path_exists w' out \<and> \<not> os_path_exists w' v \<and> \<not> os_path_exists w' a))
       \<and> (subprocess_run env (ffmpeg_cmd v a out) (files w) = Inl FileNotFoundError \<longrightarrow>
            merge_video_audio env v a out w = (Inr (False, msg_no_ffmpeg), w)
          \<and> (\<forall>err. msg_no_ffmpeg \<noteq> msg_merge_failed @ err)
          \<and> client_merge_video_audio env v a out w
              = (Inr False, print msg_install_ffmpeg (print msg_warn_no_ffmpeg (print msg_merging w))))
       \<and> (\<forall>r w'. merge_video_audio env v a out w = (r, w') \<and> r \<noteq> Inr (True, msg_merge_ok)
            \<longrightarrow> inputs_kept v a (files w) (files w'))
       \<and> (\<forall>r w'. client_merge_video_audio env v a out w = (r, w') \<and> r \<noteq> Inr True
            \<longrightarrow> inputs_kept v a (files w) (files w'))"
proof (intro conjI allI impI)
  fix result fs
  assume h: "subprocess_run env (ffmpeg_cmd v a out) (files w) = Inr (result, fs) \<and> returncode result = 0"
  with assms(2) have kept: "inputs_kept v a (files w) fs" and written: "fs out \<noteq> None" by blast+
  have out: "(fs(v := None, a := None)) out \<noteq> None" "(fs(v := None, a := None)) v = None"
    "(fs(v := None, a := None)) a = None"
    using assms(1) written by (auto simp: merge_job_def)
  from merge_try_zero(1) [OF _ _ assms(1) kept] h out
  show "\<exists>w'. merge_video_audio env v a out w = (Inr (True, msg_merge_ok), w')
          \<and> os_path_exists w' out \<and> \<not> os_path_exists w' v \<and> \<not> os_path_exists w' a"
    by (fastforce simp: merge_video_audio_cases os_path_exists_def)
  from merge_try_zero(2) [OF _ _ assms(1) kept] h out
  show "\<exists>w'. client_merge_video_audio env v a out w = (Inr True, w')
          \<and> os_path_exists w' out \<and> \<not> os_path_exists w' v \<and> \<not> os_path_exists w' a"
    by (fastforce simp: client_merge_video_audio_cases os_path_exists_def)
next
  assume h: "subprocess_run env (ffmpeg_cmd v a out) (files w) = Inl FileNotFoundError"
  from merge_try_tool_raises(1) [OF h]
  show "merge_video_audio env v a out w = (Inr (False, msg_no_ffmpeg), w)"
    by (simp add: merge_video_audio_cases)
  from merge_try_tool_raises(2) [OF h]
  show "client_merge_video_audio env v a out w
      = (Inr False, print msg_install_ffmpeg (print msg_warn_no_ffmpeg (print msg_merging w)))"
    by (simp add: client_merge_video_audio_cases)
next
  fix err show "msg_no_ffmpeg \<noteq> msg_merge_failed @ err" by (rule no_ffmpeg_not_merge_failed)
next
  have tool: "\<forall>result fs. subprocess_run env (ffmpeg_cmd v a out) (files w) = Inr (result, fs)
                 \<longrightarrow> inputs_kept v a (files w) fs"
    using assms(2) by blast
  {
    fix r w'
    assume "merge_video_audio env v a out w = (r, w') \<and> r \<noteq> Inr (True, msg_merge_ok)"
    with merge_failure_keeps_inputs(1) [OF assms(1) tool, of r w']
    show "inputs_kept v a (files w) (files w')" by blast
  }
  {
    fix r w'
    assume "client_merge_video_audio env v a out w = (r, w') \<and> r \<noteq> Inr True"
    with merge_failure_keeps_inputs(2) [OF assms(1) tool, of r w']
    show "inputs_kept v a (files w) (files w')" by blast
  }
qed

lemmas merge_defs =
  merge_video_audio_def merge_try_def client_merge_video_audio_def client_merge_try_def
  run_subprocess_def ffmpeg_cmd_def os_remove_def os_path_exists_def print_def
  os_path_basename_def inputs_kept_def merge_job_def Let_def

lemmas merge_world_defs =
  tracks_def env_ffmpeg_ok_def env_ffmpeg_fails_def env_offline_def example_env_def

text \<open>
  The theorem at work: a transcoder that succeeds, none at all, and one that fails.
\<close>

theorem merge_witness:
  "fst (merge_video_audio env_ffmpeg_ok ''/tmp/v.m4s'' ''/tmp/a.m4s'' ''/tmp/out.mp4'' tracks)
     = Inr (True, msg_merge_ok)
   \<and> files (snd (merge_video_audio env_ffmpeg_ok ''/tmp/v.m4s'' ''/tmp/a.m4s'' ''/tmp/out.mp4'' tracks))
     = [''/tmp/out.mp4'' \<mapsto> ''merged'']
   \<and> merge_video_audio env_offline ''/tmp/v.m4s'' ''/tmp/a.m4s'' ''/tmp/out.mp4'' tracks
     = (Inr (False, msg_no_ffmpeg), tracks)
   \<and> fst (merge_video_audio env_ffmpeg_fails ''/tmp/v.m4s'' ''/tmp/a.m4s'' ''/tmp/out.mp4'' tracks)
     = Inr (False, msg_merge_failed @ ''Invalid data'')
   \<and> inputs_kept ''/tmp/v.m4s'' ''/tmp/a.m4s'' (files tracks)
       (files (snd (merge_video_audio env_ffmpeg_fails ''/tmp/v.m4s'' ''/tmp/a.m4s'' ''/tmp/out.mp4'' tracks)))"
proof -
  have job: "merge_job ''/tmp/v.m4s'' ''/tmp/a.m4s'' ''/tmp/out.mp4'' tracks"
    by (simp add: merge_job_def tracks_def os_path_exists_def)
  have tool: "\<forall>result fs.
      subprocess_run e (ffmpeg_cmd ''/tmp/v.m4s'' ''/tmp/a.m4s'' ''/tmp/out.mp4'') (files tracks)
        = Inr (result, fs)
      \<longrightarrow> inputs_kept ''/tmp/v.m4s'' ''/tmp/a.m4s'' (files tracks) fs
          \<and> (returncode result = 0 \<longrightarrow> fs ''/tmp/out.mp4'' \<noteq> None)"
    if "e = env_ffmpeg_ok \<or> e = env_offline \<or> e = env_ffmpeg_fails" for e
    using that by (auto simp: merge_world_defs ffmpeg_cmd_def inputs_kept_def)
  have run: "subprocess_run env_offline (ffmpeg_cmd ''/tmp/v.m4s'' ''/tmp/a.m4s'' ''/tmp/out.mp4'')
               (files tracks) = Inl FileNotFoundError"
    by (simp add: merge_world_defs)
  have fails: "fst (merge_video_audio env_ffmpeg_fails ''/tmp/v.m4s'' ''/tmp/a.m4s'' ''/tmp/out.mp4'' tracks)
     = Inr (False, msg_merge_failed @ ''Invalid data'')"
    by (simp add: merge_world_defs merge_defs)
  have ran: "subprocess_run env_ffmpeg_ok (ffmpeg_cmd ''/tmp/v.m4s'' ''/tmp/a.m4s'' ''/tmp/out.mp4'')
               (files tracks)
             = Inr (\<lparr>returncode = 0, stderr = []\<rparr>, (files tracks)(''/tmp/out.mp4'' \<mapsto> ''merged''))
           \<and> returncode \<lparr>returncode = 0, stderr = []\<rparr> = 0"
    by (simp add: merge_world_defs ffmpeg_cmd_def)
  have "\<exists>w'. merge_video_audio env_ffmpeg_ok ''/tmp/v.m4s'' ''/tmp/a.m4s'' ''/tmp/out.mp4'' tracks
               = (Inr (True, msg_merge_ok), w')
             \<and> os_path_exists w' ''/tmp/out.mp4'' \<and> \<not> os_path_exists w' ''/tmp/v.m4s''
             \<and> \<not> os_path_exists w' ''/tmp/a.m4s''"
    using merge_deletes_inputs_only_on_success [OF job tool [of env_ffmpeg_ok]] ran by blast
  then have ok: "fst (merge_video_audio env_ffmpeg_ok ''/tmp/v.m4s'' ''/tmp/a.m4s'' ''/tmp/out.mp4'' tracks)
       = Inr (True, msg_merge_ok)
     \<and> files (snd (merge_video_audio env_ffmpeg_ok ''/tmp/v.m4s'' ''/tmp/a.m4s'' ''/tmp/out.mp4'' tracks))
       = [''/tmp/out.mp4'' \<mapsto> ''merged'']"
    by (auto simp: merge_world_defs merge_defs)
  have missing: "merge_video_audio env_offline ''/tmp/v.m4s'' ''/tmp/a.m4s'' ''/tmp/out.mp4'' tracks
     = (Inr (False, msg_no_ffmpeg), tracks)"
    using merge_deletes_inputs_only_on_success [OF job tool [of env_offline]] run by blast
  have kept: "inputs_kept ''/tmp/v.m4s'' ''/tmp/a.m4s'' (files tracks)
       (files (snd (merge_video_audio env_ffmpeg_fails ''/tmp/v.m4s'' ''/tmp/a.m4s'' ''/tmp/out.mp4'' tracks)))"
  proof -
    have "Inr (False, msg_merge_failed @ ''Invalid data'') \<noteq> (Inr (True, msg_merge_ok) :: py_exception + bool \<times> string)"
      by simp
    with merge_deletes_inputs_only_on_success [OF job tool [of env_ffmpeg_fails]] fails
    show ?thesis by (metis prod.collapse)
  qed
  show ?thesis using ok missing fails kept by simp
qed

text \<open>
  C8 as it is worded has the operation return an error for the missing tool that is
  distinct from other failures. The function of the test client returns a \<open>bool\<close>: the
  same \<open>False\<close> when the transcoder is missing and when it exits with 1.
\<close>

theorem client_merge_same_value_counterexample:
  "subprocess_run env_offline (ffmpeg_cmd ''/tmp/v.m4s'' ''/tmp/a.m4s'' ''/tmp/out.mp4'') (files tracks)
     = Inl FileNotFoundError
   \<and> subprocess_run env_ffmpeg_fails (ffmpeg_cmd ''/tmp/v.m4s'' ''/tmp/a.m4s'' ''/tmp/out.mp4'') (files tracks)
     = Inr (\<lparr>returncode = 1, stderr = ''Invalid data''\<rparr>, files tracks)
   \<and> fst (client_merge_video_audio env_offline ''/tmp/v.m4s'' ''/tmp/a.m4s'' ''/tmp/out.mp4'' tracks)
     = Inr False
   \<and> fst (client_merge_video_audio env_ffmpeg_fails ''/tmp/v.m4s'' ''/tmp/a.m4s'' ''/tmp/out.mp4'' tracks)
     = Inr False"
  by (simp add: merge_world_defs merge_defs)

section \<open>Properties: two download handlers on one disk\<close>

lemma handler_two_steps:
  "handler_step env url vid (handler_step env url vid (Idle, w)) =
     (Returned (fst (server_side_download env url vid w)), snd (server_side_download env url vid w))"
  by (simp add: server_side_download_def Let_def split: prod.splits)

lemma run_schedule_sequential:
  "run_schedule env url1 url2 vid [First, First, Second, Second] w =
     \<lparr>shared = snd (server_side_download env url2 vid (snd (server_side_download env url1 vid w))),
      handler1 = Returned (fst (server_side_download env url1 vid w)),
      handler2 = Returned (fst (server_side_download env url2 vid (snd (server_side_download env url1 vid w))))\<rparr>"
proof -
  have 1: "sched_step env url1 url2 vid (sched_step env url1 url2 vid s First) First =
        s\<lparr>shared := snd (server_side_download env url1 vid (shared s)),
          handler1 := Returned (fst (server_side_download env url1 vid (shared s)))\<rparr>"
    if "handler1 s = Idle" for s
    using that handler_two_steps [of env url1 vid "shared s"]
    by (simp split: prod.splits)
  have 2: "sched_step env url1 url2 vid (sched_step env url1 url2 vid s Second) Second =
        s\<lparr>shared := snd (server_side_download env url2 vid (shared s)),
          handler2 := Returned (fst (server_side_download env url2 vid (shared s)))\<rparr>"
    if "handler2 s = Idle" for s
    using that handler_two_steps [of env url2 vid "shared s"]
    by (simp split: prod.splits)
  let ?s0 = "\<lparr>shared = w, handler1 = Idle, handler2 = Idle\<rparr>"
  let ?s1 = "?s0\<lparr>shared := snd (server_side_download env url1 vid (shared ?s0)),
          handler1 := Returned (fst (server_side_download env url1 vid (shared ?s0)))\<rparr>"
  have a: "sched_step env url1 url2 vid (sched_step env url1 url2 vid ?s0 First) First = ?s1"
    by (rule 1) simp
  have b: "sched_step env url1 url2 vid (sched_step env url1 url2 vid ?s1 Second) Second =
        ?s1\<lparr>shared := snd (server_side_download env url2 vid (shared ?s1)),
          handler2 := Returned (fst (server_side_download env url2 vid (shared ?s1)))\<rparr>"
    by (rule 2) simp
  have "run_schedule env url1 url2 vid [First, First, Second, Second] w =
      sched_step env url1 url2 vid (sched_step env url1 url2 vid
        (sched_step env url1 url2 vid (sched_step env url1 url2 vid ?s0 First) First) Second) Second"
    by (simp only: run_schedule_def foldl.simps)
  also have "\<dots> = ?s1\<lparr>shared := snd (server_side_download env url2 vid (shared ?s1)),
          handler2 := Returned (fst (server_side_download env url2 vid (shared ?s1)))\<rparr>"
    by (simp only: a b)
  finally show ?thesis by simp
qed

lemma fetches_save_chunks: "fetches (snd (save_chunks env path n cs w)) = fetches w"
  by (induction cs arbitrary: n w) (auto simp: fetches_def file_write_def split: option.splits)

lemma fetches_save_video: "fetches (snd (save_video env path r w)) = fetches w"
  using fetches_save_chunks [of env path 0 "body_chunks r" "file_open path w"]
  by (auto simp: save_video_def fetches_def file_open_def split: option.splits prod.splits)

lemma fetches_fetch: "fetches (snd (fetch env url h w)) = Suc (fetches w)"
  by (simp add: fetch_world fetches_def)

lemma fetches_os_remove: "os_remove path w = Inr w' \<Longrightarrow> fetches w' = fetches w"
  by (auto simp: os_remove_def fetches_def split: if_splits)

lemma fetches_download_and_save:
  "fetches (snd (download_and_save env url path local w)) = Suc (fetches w)"
proof -
  obtain x w1 where f: "fetch env url (request_headers url) w = (x, w1)"
    by (cases "fetch env url (request_headers url) w")
  with fetches_fetch [of env url "request_headers url" w] have w1: "fetches w1 = Suc (fetches w)" by simp
  show ?thesis
  proof (cases x)
    case (Inl e)
    with f w1 show ?thesis by (simp add: download_and_save_def)
  next
    case (Inr r)
    obtain y w2 where s: "save_video env path r w1 = (y, w2)" by (cases "save_video env path r w1")
    with fetches_save_video [of env path r w1] w1 have w2: "fetches w2 = Suc (fetches w)" by simp
    show ?thesis
    proof (cases y)
      case None
      with f Inr s w2 show ?thesis by (simp add: download_and_save_def)
    next
      case (Some e)
      show ?thesis
      proof (cases "os_remove path w2")
        case (Inl e')
        with f Inr s w2 Some show ?thesis by (simp add: download_and_save_def)
      next
        case (Inr w3)
        with fetches_os_remove [OF this] f \<open>x = Inr r\<close> s w2 Some show ?thesis
          by (simp add: download_and_save_def)
      qed
    qed
  qed
qed

lemma fetches_server_side_download:
  "fetches (snd (server_side_download env url vid w)) =
     (if os_path_exists w (video_path_of env vid) then fetches w else Suc (fetches w))"
  by (simp add: server_side_download_def fetches_download_and_save Let_def)

text \<open>
  When the file is absent and both handlers test for it before either downloads, each
  of them fetches: two fetches, whatever the links and whatever the network answers.
\<close>

lemma interleaved_requests_fetch_twice:
  assumes "\<not> os_path_exists w (video_path_of env vid)"
  shows "fetches (shared (run_schedule env url1 url2 vid [First, Second, First, Second] w))
           = Suc (Suc (fetches w))"
proof -
  let ?p = "video_path_of env vid" and ?u = "download_url_of env vid"
  obtain r1 w1 where d1: "download_and_save env url1 ?p ?u w = (r1, w1)"
    by (cases "download_and_save env url1 ?p ?u w")
  obtain r2 w2 where d2: "download_and_save env url2 ?p ?u w1 = (r2, w2)"
    by (cases "download_and_save env url2 ?p ?u w1")
  have f1: "fetches w1 = Suc (fetches w)"
    using fetches_download_and_save [of env url1 ?p ?u w] d1 by simp
  have f2: "fetches w2 = Suc (fetches w1)"
    using fetches_download_and_save [of env url2 ?p ?u w1] d2 by simp
  have "shared (run_schedule env url1 url2 vid [First, Second, First, Second] w) = w2"
    using assms d1 d2 by (simp add: run_schedule_def)
  then show ?thesis using f1 f2 by simp
qed

text \<open>
  Claim C9, as the code has it. Two requests with the same \<open>video_id\<close> for domains not on
  the allow-list. When the second handler starts after the first has returned, the run
  is the first download followed by the second; and if the first ended with the file
  served locally, the file is on disk, the second returns the same local URL and does
  nothing, and at most one fetch has occurred.
\<close>

theorem sequential_requests_download_once:
  "run_schedule env url1 url2 vid [First, First, Second, Second] w =
     \<lparr>shared = snd (server_side_download env url2 vid (snd (server_side_download env url1 vid w))),
      handler1 = Returned (fst (server_side_download env url1 vid w)),
      handler2 = Returned (fst (server_side_download env url2 vid (snd (server_side_download env url1 vid w))))\<rparr>
   \<and> (fst (server_side_download env url1 vid w) = Inr (served (download_url_of env vid)) \<longrightarrow>
        server_side_download env url2 vid (snd (server_side_download env url1 vid w))
          = (Inr (served (download_url_of env vid)), snd (server_side_download env url1 vid w))
      \<and> os_path_exists (snd (server_side_download env url1 vid w)) (video_path_of env vid)
      \<and> fetches (snd (server_side_download env url1 vid w)) \<le> Suc (fetches w))"
proof (intro conjI impI)
  show "run_schedule env url1 url2 vid [First, First, Second, Second] w =
     \<lparr>shared = snd (server_side_download env url2 vid (snd (server_side_download env url1 vid w))),
      handler1 = Returned (fst (server_side_download env url1 vid w)),
      handler2 = Returned (fst (server_side_download env url2 vid (snd (server_side_download env url1 vid w))))\<rparr>"
    by (rule run_schedule_sequential)
  show "fetches (snd (server_side_download env url1 vid w)) \<le> Suc (fetches w)"
    by (simp add: fetches_server_side_download)
  assume "fst (server_side_download env url1 vid w) = Inr (served (download_url_of env vid))"
  then have "catch_all (server_side_download env url1 vid w)
      = (served (download_url_of env vid), snd (server_side_download env url1 vid w))"
    by (cases "server_side_download env url1 vid w") (simp add: catch_all_def)
  from server_side_download_served_exists [OF this]
  show ex: "os_path_exists (snd (server_side_download env url1 vid w)) (video_path_of env vid)" .
  from server_side_download_present [OF ex]
  show "server_side_download env url2 vid (snd (server_side_download env url1 vid w))
          = (Inr (served (download_url_of env vid)), snd (server_side_download env url1 vid w))" .
qed

text \<open>
  The theorem at work: one fetch for two requests in a row.
\<close>

theorem sequential_requests_download_once_witness:
  "handler1 (run_schedule env_complete ''cdn.example/v.mp4'' ''cdn.example/w.mp4'' ''new''
       [First, First, Second, Second] disk)
     = Returned (Inr (served ''https://parser.example/static/videos/new.mp4''))
   \<and> handler2 (run_schedule env_complete ''cdn.example/v.mp4'' ''cdn.example/w.mp4'' ''new''
       [First, First, Second, Second] disk)
     = Returned (Inr (served ''https://parser.example/static/videos/new.mp4''))
   \<and> fetches (shared (run_schedule env_complete ''cdn.example/v.mp4'' ''cdn.example/w.mp4'' ''new''
       [First, First, Second, Second] disk)) = 1"
proof -
  have u: "download_url_of env_complete ''new'' = ''https://parser.example/static/videos/new.mp4''"
    by (simp add: world_defs download_url_of_def)
  have first: "fst (server_side_download env_complete ''cdn.example/v.mp4'' ''new'' disk)
      = Inr (served (download_url_of env_complete ''new''))"
    by (simp add: world_defs download_defs)
  have n: "fetches (snd (server_side_download env_complete ''cdn.example/v.mp4'' ''new'' disk)) = 1"
    by (simp add: fetches_server_side_download)
       (simp add: world_defs video_path_of_def os_path_join_def os_path_exists_def fetches_def)
  show ?thesis
    using sequential_requests_download_once [of env_complete "''cdn.example/v.mp4''"
        "''cdn.example/w.mp4''" "''new''" disk] first n u
    by simp
qed

text \<open>
  C9 as it is worded has the check and the download serialized per \<open>video_id\<close>. No lock
  is taken anywhere in the handlers: when both handlers test for the file before either
  has created it, both find it absent, both fetch, and the second overwrites the file of
  the first. Two fetches occur for one \<open>video_id\<close>.
\<close>

theorem interleaved_requests_download_twice_counterexample:
  "handler1 (run_schedule env_complete ''cdn.example/v.mp4'' ''cdn.example/v.mp4'' ''new''
       [First, Second, First, Second] disk)
     = Returned (Inr (served ''https://parser.example/static/videos/new.mp4''))
   \<and> handler2 (run_schedule env_complete ''cdn.example/v.mp4'' ''cdn.example/v.mp4'' ''new''
       [First, Second, First, Second] disk)
     = Returned (Inr (served ''https://parser.example/static/videos/new.mp4''))
   \<and> fetches (shared (run_schedule env_complete ''cdn.example/v.mp4'' ''cdn.example/v.mp4'' ''new''
       [First, Second, First, Second] disk)) = 2"
  by (simp add: run_schedule_def world_defs download_defs fetches_def)

end
